theory Spec2Isabelle
  imports Complex_Main
begin

section \<open>Python values and exceptions\<close>

text \<open>
  The load tester is Python.  Its \<^verbatim>\<open>float\<close> values are modelled as
  \<^typ>\<open>real\<close> (exact arithmetic, no rounding, no NaN or infinity), its unbounded
  \<^verbatim>\<open>int\<close> as \<^typ>\<open>int\<close>, \<^verbatim>\<open>str\<close> as \<^typ>\<open>string\<close>.
  Every \<^verbatim>\<open>raise\<close> is a value: a function that can raise returns
  \<open>py_exn + 'a\<close>, with \<open>Inl\<close> the exception that propagates to the caller.
  \<open>py_exn\<close> stands for instances of Python's \<^verbatim>\<open>Exception\<close> class, which is what
  the handlers of the source name (\<^verbatim>\<open>except Exception as e\<close>).  What is not an
  instance of it (\<^verbatim>\<open>KeyboardInterrupt\<close>, \<^verbatim>\<open>asyncio.CancelledError\<close>, \<^verbatim>\<open>SystemExit\<close>)
  passes through such a handler and is outside this model: no statement below speaks
  about the interruption or cancellation of a session.
\<close>

text \<open>The name of an exception class is a Python identifier: it is never the empty
  string.\<close>

typedef class_name = "{s :: string. s \<noteq> []}"
  by (rule exI [of _ "''Exception''"]) simp

datatype py_exn =
    IndexError
  | ZeroDivisionError
  | ValueError string
  | StatisticsError
  | ImportError string
  | RuntimeError string
  | Raised class_name string

text \<open>\<^verbatim>\<open>type(e).__name__\<close> and \<^verbatim>\<open>str(e)\<close>.  \<open>Raised name msg\<close> is an exception that
  a library call (httpx, websockets, asyncio, json) raised, given by its class name and its
  message text (which may be empty: \<^verbatim>\<open>str(TimeoutError())\<close> is).  The exceptions of
  Python's own operations have the message that CPython gives them.\<close>

fun exn_name :: "py_exn \<Rightarrow> string" where
  "exn_name IndexError = ''IndexError''"
| "exn_name ZeroDivisionError = ''ZeroDivisionError''"
| "exn_name (ValueError m) = ''ValueError''"
| "exn_name StatisticsError = ''StatisticsError''"
| "exn_name (ImportError m) = ''ImportError''"
| "exn_name (RuntimeError m) = ''RuntimeError''"
| "exn_name (Raised n m) = Rep_class_name n"

fun exn_str :: "py_exn \<Rightarrow> string" where
  "exn_str IndexError = ''list index out of range''"
| "exn_str ZeroDivisionError = ''division by zero''"
| "exn_str (ValueError m) = m"
| "exn_str StatisticsError = ''mean requires at least one data point''"
| "exn_str (ImportError m) = m"
| "exn_str (RuntimeError m) = m"
| "exn_str (Raised n m) = m"

text \<open>Sequencing of two computations that may raise: the first exception propagates.\<close>

definition and_then :: "py_exn + 'a \<Rightarrow> ('a \<Rightarrow> py_exn + 'b) \<Rightarrow> py_exn + 'b" where
  "and_then r f = (case r of Inl e \<Rightarrow> Inl e | Inr v \<Rightarrow> f v)"

text \<open>\<^verbatim>\<open>int(k)\<close> on a float truncates toward zero.\<close>

definition py_int :: "real \<Rightarrow> int" where
  "py_int k = (if 0 \<le> k then \<lfloor>k\<rfloor> else \<lceil>k\<rceil>)"

text \<open>\<^verbatim>\<open>xs[i]\<close>: an index from \<open>-len(xs)\<close> to \<open>-1\<close> counts from the end, anything
  outside \<open>-len(xs) .. len(xs) - 1\<close> raises IndexError.\<close>

definition getitem :: "'a list \<Rightarrow> int \<Rightarrow> py_exn + 'a" where
  "getitem xs i =
     (if 0 \<le> i \<and> i < int (length xs) then Inr (xs ! nat i)
      else if i < 0 \<and> - int (length xs) \<le> i then Inr (xs ! nat (int (length xs) + i))
      else Inl IndexError)"

text \<open>\<^verbatim>\<open>a / b\<close> on numbers.\<close>

definition truediv :: "real \<Rightarrow> real \<Rightarrow> py_exn + real" where
  "truediv a b = (if b = 0 then Inl ZeroDivisionError else Inr (a / b))"

section \<open>Utility functions\<close>

text \<open>
  \<^verbatim>\<open>
  def percentile(data, p):
      if not data:
          return 0.0
      sorted_data = sorted(data)
      k = (len(sorted_data) - 1) * p / 100
      f = int(k)
      c = min(f + 1, len(sorted_data) - 1)
      return sorted_data[f] + (k - f) * (sorted_data[c] - sorted_data[f])
  \<close>
  The rank and the two indices are definitions of their own, so that statements can
  speak about them.
\<close>

definition percentile_k :: "real list \<Rightarrow> real \<Rightarrow> real" where
  "percentile_k sorted_data p = (real_of_int (int (length sorted_data) - 1)) * p / 100"

definition percentile_f :: "real list \<Rightarrow> real \<Rightarrow> int" where
  "percentile_f sorted_data p = py_int (percentile_k sorted_data p)"

definition percentile_c :: "real list \<Rightarrow> real \<Rightarrow> int" where
  "percentile_c sorted_data p =
     min (percentile_f sorted_data p + 1) (int (length sorted_data) - 1)"

definition percentile :: "real list \<Rightarrow> real \<Rightarrow> py_exn + real" where
  "percentile data p =
     (if data = [] then Inr 0
      else
        let sorted_data = sort data;
            k = percentile_k sorted_data p;
            f = percentile_f sorted_data p;
            c = percentile_c sorted_data p
        in and_then (getitem sorted_data f) (\<lambda>lo.
           and_then (getitem sorted_data c) (\<lambda>hi.
           and_then (getitem sorted_data f) (\<lambda>lo'.
             Inr (lo + (k - real_of_int f) * (hi - lo'))))))"

text \<open>
  The policy of the specification, in its words: sort ascending; rank
  \<open>k = (n - 1) * p / 100\<close>; \<open>f = floor k\<close>; \<open>c = min (f + 1) (n - 1)\<close>; the result
  is \<open>sample[f] + (k - f) * (sample[c] - sample[f])\<close>; empty input gives 0.0.
\<close>

definition percentile_spec :: "real list \<Rightarrow> real \<Rightarrow> real" where
  "percentile_spec samples p =
     (if samples = [] then 0
      else
        let sample = sort samples;
            n = length sample;
            k = (real n - 1) * p / 100;
            f = nat \<lfloor>k\<rfloor>;
            c = min (f + 1) (n - 1)
        in sample ! f + (k - real f) * (sample ! c - sample ! f))"

text \<open>
  \<^verbatim>\<open>
  def convert_to_ws_url(url):
      url = url.rstrip("/")
      if url.startswith("http://"):    return "ws://" + url[7:] + "/ws"
      elif url.startswith("https://"): return "wss://" + url[8:] + "/ws"
      elif url.startswith("ws://") or url.startswith("wss://"):
          return url if url.endswith("/ws") else url + "/ws"
      return "ws://" + url + "/ws"
  \<close>
\<close>

definition rstrip_slash :: "string \<Rightarrow> string" where
  "rstrip_slash s = rev (dropWhile (\<lambda>ch. ch = CHR ''/'') (rev s))"

definition startswith :: "string \<Rightarrow> string \<Rightarrow> bool" where
  "startswith s pre = (take (length pre) s = pre)"

definition endswith :: "string \<Rightarrow> string \<Rightarrow> bool" where
  "endswith s suf = (length suf \<le> length s \<and> drop (length s - length suf) s = suf)"

definition convert_to_ws_url :: "string \<Rightarrow> string" where
  "convert_to_ws_url u =
     (let u1 = rstrip_slash u in
      if startswith u1 ''http://'' then ''ws://'' @ drop 7 u1 @ ''/ws''
      else if startswith u1 ''https://'' then ''wss://'' @ drop 8 u1 @ ''/ws''
      else if startswith u1 ''ws://'' \<or> startswith u1 ''wss://''
        then (if endswith u1 ''/ws'' then u1 else u1 @ ''/ws'')
      else ''ws://'' @ u1 @ ''/ws'')"

section \<open>Data classes\<close>

text \<open>
  \<^verbatim>\<open>SessionResult\<close>: the result of one session.  The fields keep the names of the
  dataclass.  \<open>error_type\<close> and \<open>error_message\<close> are \<^verbatim>\<open>Optional[str]\<close>.
\<close>

record SessionResult =
  request_id :: int
  mode :: string
  timestamp :: string
  wait_requested :: real
  batch_size :: int
  hardware :: string
  connect_latency :: real
  reset_latency :: real
  step_latency :: real
  total_latency :: real
  waited_seconds :: real
  pid :: int
  session_hash :: string
  host_url :: string
  success :: bool
  error_type :: "string option"
  error_message :: "string option"

text \<open>The dataclass constructor with only the four required fields given: every other
  field has its declared default.  Keyword arguments of a call are record updates of it.\<close>

definition new_SessionResult :: "int \<Rightarrow> string \<Rightarrow> string \<Rightarrow> real \<Rightarrow> SessionResult" where
  "new_SessionResult rid m ts wr =
     \<lparr> request_id = rid, mode = m, timestamp = ts, wait_requested = wr,
       batch_size = 0, hardware = ''cpu-basic'',
       connect_latency = 0, reset_latency = 0, step_latency = 0, total_latency = 0,
       waited_seconds = 0, pid = 0, session_hash = [], host_url = [],
       success = True, error_type = None, error_message = None \<rparr>"

text \<open>
  \<^verbatim>\<open>RunSummary\<close>: the aggregate of one batch.  Its fields \<^verbatim>\<open>mode\<close>,
  \<^verbatim>\<open>batch_size\<close>, \<^verbatim>\<open>timestamp\<close> and \<^verbatim>\<open>hardware\<close> share their names with fields
  of \<open>SessionResult\<close>; here they carry the prefix \<open>summary_\<close>.
\<close>

record RunSummary =
  summary_mode :: string
  url :: string
  num_requests :: int
  summary_batch_size :: int
  wait_seconds :: real
  repetition :: int
  summary_timestamp :: string
  summary_hardware :: string
  successful :: int
  failed :: int
  error_rate :: real
  total_wall_time :: real
  connect_p50 :: real
  connect_p95 :: real
  connect_p99 :: real
  reset_p50 :: real
  reset_p95 :: real
  reset_p99 :: real
  step_p50 :: real
  step_p95 :: real
  step_p99 :: real
  total_min :: real
  total_max :: real
  total_avg :: real
  total_p50 :: real
  total_p90 :: real
  total_p95 :: real
  total_p99 :: real
  requests_per_second :: real
  effective_concurrency :: real
  unique_pids :: int
  unique_sessions :: int
  unique_hosts :: int

definition new_RunSummary :: "string \<Rightarrow> string \<Rightarrow> int \<Rightarrow> RunSummary" where
  "new_RunSummary m u n =
     \<lparr> summary_mode = m, url = u, num_requests = n,
       summary_batch_size = 0, wait_seconds = 0, repetition = 0,
       summary_timestamp = [], summary_hardware = ''cpu-basic'',
       successful = 0, failed = 0, error_rate = 0, total_wall_time = 0,
       connect_p50 = 0, connect_p95 = 0, connect_p99 = 0,
       reset_p50 = 0, reset_p95 = 0, reset_p99 = 0,
       step_p50 = 0, step_p95 = 0, step_p99 = 0,
       total_min = 0, total_max = 0, total_avg = 0,
       total_p50 = 0, total_p90 = 0, total_p95 = 0, total_p99 = 0,
       requests_per_second = 0, effective_concurrency = 0,
       unique_pids = 0, unique_sessions = 0, unique_hosts = 0 \<rparr>"

section \<open>Results processing\<close>

text \<open>\<^verbatim>\<open>len(xs)\<close>, \<^verbatim>\<open>min(xs)\<close>, \<^verbatim>\<open>max(xs)\<close> and \<^verbatim>\<open>statistics.mean(xs)\<close>;
  the last three raise on an empty list.\<close>

definition len :: "'a list \<Rightarrow> int" where
  "len xs = int (length xs)"

fun py_min :: "real list \<Rightarrow> py_exn + real" where
  "py_min [] = Inl (ValueError ''min() arg is an empty sequence'')"
| "py_min (x # xs) = Inr (fold min xs x)"

fun py_max :: "real list \<Rightarrow> py_exn + real" where
  "py_max [] = Inl (ValueError ''max() arg is an empty sequence'')"
| "py_max (x # xs) = Inr (fold max xs x)"

definition mean :: "real list \<Rightarrow> py_exn + real" where
  "mean xs = (if xs = [] then Inl StatisticsError else Inr (sum_list xs / real (length xs)))"

text \<open>
  The four blocks of \<^verbatim>\<open>compute_summary\<close> that assign the latency statistics, each
  guarded by the truth value of its list, as in
  \<^verbatim>\<open>
  if connect_times:
      summary.connect_p50 = percentile(connect_times, 50)
      summary.connect_p95 = percentile(connect_times, 95)
      summary.connect_p99 = percentile(connect_times, 99)
  \<close>
\<close>

definition connect_stats :: "real list \<Rightarrow> RunSummary \<Rightarrow> py_exn + RunSummary" where
  "connect_stats connect_times summary =
     (if connect_times \<noteq> [] then
        and_then (percentile connect_times 50) (\<lambda>p50.
        and_then (percentile connect_times 95) (\<lambda>p95.
        and_then (percentile connect_times 99) (\<lambda>p99.
          Inr (summary\<lparr>connect_p50 := p50, connect_p95 := p95, connect_p99 := p99\<rparr>))))
      else Inr summary)"

definition reset_stats :: "real list \<Rightarrow> RunSummary \<Rightarrow> py_exn + RunSummary" where
  "reset_stats reset_times summary =
     (if reset_times \<noteq> [] then
        and_then (percentile reset_times 50) (\<lambda>p50.
        and_then (percentile reset_times 95) (\<lambda>p95.
        and_then (percentile reset_times 99) (\<lambda>p99.
          Inr (summary\<lparr>reset_p50 := p50, reset_p95 := p95, reset_p99 := p99\<rparr>))))
      else Inr summary)"

definition step_stats :: "real list \<Rightarrow> RunSummary \<Rightarrow> py_exn + RunSummary" where
  "step_stats step_times summary =
     (if step_times \<noteq> [] then
        and_then (percentile step_times 50) (\<lambda>p50.
        and_then (percentile step_times 95) (\<lambda>p95.
        and_then (percentile step_times 99) (\<lambda>p99.
          Inr (summary\<lparr>step_p50 := p50, step_p95 := p95, step_p99 := p99\<rparr>))))
      else Inr summary)"

definition total_stats :: "real list \<Rightarrow> RunSummary \<Rightarrow> py_exn + RunSummary" where
  "total_stats total_times summary =
     (if total_times \<noteq> [] then
        and_then (py_min total_times) (\<lambda>lo.
        and_then (py_max total_times) (\<lambda>hi.
        and_then (mean total_times) (\<lambda>avg.
        and_then (percentile total_times 50) (\<lambda>p50.
        and_then (percentile total_times 90) (\<lambda>p90.
        and_then (percentile total_times 95) (\<lambda>p95.
        and_then (percentile total_times 99) (\<lambda>p99.
          Inr (summary\<lparr>total_min := lo, total_max := hi, total_avg := avg,
                 total_p50 := p50, total_p90 := p90, total_p95 := p95, total_p99 := p99\<rparr>))))))))
      else Inr summary)"

text \<open>
  \<^verbatim>\<open>
  if total_wall_time > 0:
      summary.requests_per_second = len(successful) / total_wall_time
      summary.effective_concurrency = (num_requests * wait_seconds) / total_wall_time
  \<close>
\<close>

definition throughput :: "SessionResult list \<Rightarrow> int \<Rightarrow> real \<Rightarrow> real \<Rightarrow> RunSummary
    \<Rightarrow> py_exn + RunSummary" where
  "throughput succeeded n w wall summary =
     (if wall > 0 then
        and_then (truediv (real_of_int (len succeeded)) wall) (\<lambda>rps.
        and_then (truediv (real_of_int n * w) wall) (\<lambda>conc.
          Inr (summary\<lparr>requests_per_second := rps, effective_concurrency := conc\<rparr>)))
      else Inr summary)"

text \<open>
  \<^verbatim>\<open>
  summary.unique_pids = len(set(r.pid for r in successful if r.pid))
  summary.unique_sessions = len(set(r.session_hash for r in successful if r.session_hash))
  summary.unique_hosts = len(set(r.host_url for r in successful if r.host_url))
  \<close>
  A pid is true when it is not 0, a string when it is not empty.
\<close>

definition distribution :: "SessionResult list \<Rightarrow> RunSummary \<Rightarrow> RunSummary" where
  "distribution succeeded summary =
     summary\<lparr>
       unique_pids := int (card (set (map pid (filter (\<lambda>r. pid r \<noteq> 0) succeeded)))),
       unique_sessions :=
         int (card (set (map session_hash (filter (\<lambda>r. session_hash r \<noteq> []) succeeded)))),
       unique_hosts :=
         int (card (set (map host_url (filter (\<lambda>r. host_url r \<noteq> []) succeeded))))\<rparr>"

text \<open>
  \<^verbatim>\<open>compute_summary(results, mode, url, num_requests, wait_seconds, repetition,
  total_wall_time, hardware)\<close>.  The first argument \<open>now\<close> is what \<^verbatim>\<open>now_iso()\<close>
  returns when the summary is built.  The local lists \<^verbatim>\<open>successful\<close> and
  \<^verbatim>\<open>failed\<close> are \<open>succeeded\<close> and \<open>failures\<close> here (the summary has fields of
  those names).
\<close>

definition compute_summary ::
  "string \<Rightarrow> SessionResult list \<Rightarrow> string \<Rightarrow> string \<Rightarrow> int \<Rightarrow> real \<Rightarrow> int \<Rightarrow> real \<Rightarrow> string
    \<Rightarrow> py_exn + RunSummary" where
  "compute_summary now results m u n w rep wall hw =
     (let succeeded = filter (\<lambda>r. success r) results;
          failures = filter (\<lambda>r. \<not> success r) results
      in
      and_then (if results \<noteq> []
                then truediv (real_of_int (len failures)) (real_of_int (len results))
                else Inr 0) (\<lambda>rate.
      let summary = (new_RunSummary m u n)\<lparr>
            summary_batch_size := n,
            wait_seconds := w,
            repetition := rep,
            summary_timestamp := now,
            summary_hardware := hw,
            successful := len succeeded,
            failed := len failures,
            error_rate := rate,
            total_wall_time := wall\<rparr>
      in
      if succeeded = [] then Inr summary
      else
        let connect_times =
              map connect_latency (filter (\<lambda>r. connect_latency r > 0) succeeded);
            reset_times = map reset_latency (filter (\<lambda>r. reset_latency r > 0) succeeded);
            step_times = map step_latency (filter (\<lambda>r. step_latency r > 0) succeeded);
            total_times = map total_latency succeeded
        in
        and_then (connect_stats connect_times summary) (\<lambda>s1.
        and_then (reset_stats reset_times s1) (\<lambda>s2.
        and_then (step_stats step_times s2) (\<lambda>s3.
        and_then (total_stats total_times s3) (\<lambda>s4.
        and_then (throughput succeeded n w wall s4) (\<lambda>s5.
          Inr (distribution succeeded s5))))))))"

section \<open>The outside world of a session\<close>

text \<open>
  A session talks to a server and reads the clock.  What the server answers and what the
  clock shows are inputs of the model: a \<^emph>\<open>world\<close> gives the outcome of every
  network operation of one session (an exception or a value), the successive readings of
  \<^verbatim>\<open>time.perf_counter()\<close> in that session (\<open>clock 0\<close> is the first reading, \<open>clock 1\<close>
  the second, ...) and the result of \<^verbatim>\<open>now_iso()\<close>.

  A computation that reads the clock and may raise takes the number of clock readings made
  so far and returns its outcome with the new number.
\<close>

type_synonym 'a timed = "nat \<Rightarrow> (py_exn + 'a) \<times> nat"

definition ret :: "'a \<Rightarrow> 'a timed" where
  "ret v = (\<lambda>i. (Inr v, i))"

definition perf_counter :: "(nat \<Rightarrow> real) \<Rightarrow> real timed" where
  "perf_counter clock = (\<lambda>i. (Inr (clock i), Suc i))"

text \<open>An operation whose outcome the world gives.\<close>

definition await :: "py_exn + 'a \<Rightarrow> 'a timed" where
  "await outcome = (\<lambda>i. (outcome, i))"

text \<open>An operation without a result: \<open>None\<close> when it passes, \<open>Some e\<close> when it raises.\<close>

definition check :: "py_exn option \<Rightarrow> unit timed" where
  "check outcome = (\<lambda>i. (case outcome of None \<Rightarrow> Inr () | Some e \<Rightarrow> Inl e, i))"

definition seq :: "'a timed \<Rightarrow> ('a \<Rightarrow> 'b timed) \<Rightarrow> 'b timed" where
  "seq first rest =
     (\<lambda>i. case first i of (Inl e, j) \<Rightarrow> (Inl e, j) | (Inr v, j) \<Rightarrow> rest v j)"

text \<open>\<^verbatim>\<open>try: body  except Exception as e: handler\<close>.\<close>

definition try_except :: "'a timed \<Rightarrow> (py_exn \<Rightarrow> 'a timed) \<Rightarrow> 'a timed" where
  "try_except body handler =
     (\<lambda>i. case body i of (Inl e, j) \<Rightarrow> handler e j | (Inr v, j) \<Rightarrow> (Inr v, j))"

text \<open>\<^verbatim>\<open>async with ws: body\<close>.  Leaving the block closes the connection, whether the
  body raised or not; when closing raises, that exception is the one that propagates.\<close>

definition async_with :: "py_exn option \<Rightarrow> 'a timed \<Rightarrow> 'a timed" where
  "async_with leave body =
     (\<lambda>i. case body i of (r, j) \<Rightarrow> (case leave of Some e \<Rightarrow> (Inl e, j) | None \<Rightarrow> (r, j)))"

text \<open>The keys found in the \<^verbatim>\<open>observation\<close> dictionary of a step response; a missing
  key is \<open>None\<close>, and \<^verbatim>\<open>obs.get(key, default)\<close> then gives the default.\<close>

record observation =
  obs_waited_seconds :: "real option"
  obs_pid :: "int option"
  obs_session_hash :: "string option"
  obs_host_url :: "string option"

definition get_or :: "'a option \<Rightarrow> 'a \<Rightarrow> 'a" where
  "get_or v d = (case v of None \<Rightarrow> d | Some x \<Rightarrow> x)"

section \<open>HTTP mode\<close>

text \<open>
  A response of \<^verbatim>\<open>client.post\<close>: what \<^verbatim>\<open>raise_for_status()\<close> does on it, and what
  reading the observation out of its body gives (\<^verbatim>\<open>resp.json()\<close> and
  \<^verbatim>\<open>result.get("observation", {})\<close> with the four \<^verbatim>\<open>obs.get\<close>: an exception when the
  body is not JSON or not a dictionary).
\<close>

record http_response =
  raise_for_status :: "py_exn option"
  json_observation :: "py_exn + observation"

record http_world =
  http_now :: string
  http_clock :: "nat \<Rightarrow> real"
  reset_post :: "py_exn + http_response"
  step_post :: "py_exn + http_response"

text \<open>
  \<^verbatim>\<open>
  async def http_session(client, base_url, request_id, wait_seconds):
      timestamp = now_iso()
      t0 = time.perf_counter()
      try:
          t_reset_start = time.perf_counter()
          reset_resp = await client.post(f"{base_url}/reset")
          reset_resp.raise_for_status()
          t_reset_end = time.perf_counter()
          reset_latency = t_reset_end - t_reset_start
          t_step_start = time.perf_counter()
          step_resp = await client.post(f"{base_url}/step", json=...)
          step_resp.raise_for_status()
          t_step_end = time.perf_counter()
          step_latency = t_step_end - t_step_start
          total_latency = time.perf_counter() - t0
          result = step_resp.json()
          obs = result.get("observation", {})
          return SessionResult(request_id=request_id, mode="http", timestamp=timestamp,
              wait_requested=wait_seconds, connect_latency=0.0,
              reset_latency=reset_latency, step_latency=step_latency,
              total_latency=total_latency,
              waited_seconds=obs.get("waited_seconds", 0.0), pid=obs.get("pid", 0),
              session_hash=obs.get("session_hash", ""), host_url=obs.get("host_url", ""))
      except Exception as e:
          total_latency = time.perf_counter() - t0
          return SessionResult(request_id=request_id, mode="http", timestamp=timestamp,
              wait_requested=wait_seconds, total_latency=total_latency,
              success=False, error_type=type(e).__name__, error_message=str(e))
  \<close>
  \<open>http_try\<close> is the body of the \<^verbatim>\<open>try\<close>, \<open>session_failed\<close> the handler (the same
  in both modes but for the mode string) and \<open>failed_result\<close> the record that the handler
  builds.  Parameters that would clash with a record
  field are abbreviated throughout: \<open>rid\<close> (request_id), \<open>w\<close> (wait_seconds), \<open>n\<close>
  (num_requests), \<open>m\<close> (mode), \<open>u\<close> (url), \<open>hw\<close> (hardware), \<open>rep\<close> (repetition).
\<close>

definition failed_result ::
  "int \<Rightarrow> string \<Rightarrow> string \<Rightarrow> real \<Rightarrow> real \<Rightarrow> py_exn \<Rightarrow> SessionResult" where
  "failed_result rid m ts w latency e =
     (new_SessionResult rid m ts w)\<lparr>
        total_latency := latency,
        success := False,
        error_type := Some (exn_name e),
        error_message := Some (exn_str e)\<rparr>"

definition session_failed ::
  "(nat \<Rightarrow> real) \<Rightarrow> int \<Rightarrow> string \<Rightarrow> string \<Rightarrow> real \<Rightarrow> real \<Rightarrow> py_exn \<Rightarrow> SessionResult timed" where
  "session_failed clock rid m ts w t0 e =
     seq (perf_counter clock) (\<lambda>t_now. ret (failed_result rid m ts w (t_now - t0) e))"

definition http_try :: "http_world \<Rightarrow> int \<Rightarrow> string \<Rightarrow> real \<Rightarrow> real \<Rightarrow> SessionResult timed" where
  "http_try env rid ts w t0 =
     seq (perf_counter (http_clock env)) (\<lambda>t_reset_start.
     seq (await (reset_post env)) (\<lambda>reset_resp.
     seq (check (raise_for_status reset_resp)) (\<lambda>_.
     seq (perf_counter (http_clock env)) (\<lambda>t_reset_end.
     seq (perf_counter (http_clock env)) (\<lambda>t_step_start.
     seq (await (step_post env)) (\<lambda>step_resp.
     seq (check (raise_for_status step_resp)) (\<lambda>_.
     seq (perf_counter (http_clock env)) (\<lambda>t_step_end.
     seq (perf_counter (http_clock env)) (\<lambda>t_end.
     seq (await (json_observation step_resp)) (\<lambda>obs.
       ret ((new_SessionResult rid ''http'' ts w)\<lparr>
              connect_latency := 0,
              reset_latency := t_reset_end - t_reset_start,
              step_latency := t_step_end - t_step_start,
              total_latency := t_end - t0,
              waited_seconds := get_or (obs_waited_seconds obs) 0,
              pid := get_or (obs_pid obs) 0,
              session_hash := get_or (obs_session_hash obs) [],
              host_url := get_or (obs_host_url obs) []\<rparr>)))))))))))"

definition http_session :: "http_world \<Rightarrow> string \<Rightarrow> int \<Rightarrow> real \<Rightarrow> py_exn + SessionResult" where
  "http_session env base_url rid w =
     fst (seq (perf_counter (http_clock env)) (\<lambda>t0.
            try_except (http_try env rid (http_now env) w t0)
              (session_failed (http_clock env) rid ''http'' (http_now env) w t0)) 0)"

text \<open>\<^verbatim>\<open>range(n)\<close>, and \<^verbatim>\<open>await asyncio.gather(*tasks)\<close>: the results in the order of the
  tasks; when a task raises, gather raises (here: the exception of the first such task in
  list order).\<close>

definition py_range :: "int \<Rightarrow> int list" where
  "py_range n = [0..n - 1]"

fun gather :: "(py_exn + 'a) list \<Rightarrow> py_exn + 'a list" where
  "gather [] = Inr []"
| "gather (t # ts) = and_then t (\<lambda>r. and_then (gather ts) (\<lambda>rs. Inr (r # rs)))"

text \<open>
  \<^verbatim>\<open>
  async def run_http_test(url, num_requests, wait_seconds, timeout=120.0, hardware="cpu-basic"):
      ...
      tasks = [http_session(client, url, i, wait_seconds) for i in range(num_requests)]
      results = await asyncio.gather(*tasks)
      for r in results:
          r.batch_size = num_requests
          r.hardware = hardware
      return list(results)
  \<close>
  Session \<open>i\<close> runs in the world \<open>envs i\<close>: the sessions share no state, and what
  the interleaving of their network operations does to one of them is part of its world.
  Creating and closing the httpx client is not modelled.
\<close>

definition stamp :: "int \<Rightarrow> string \<Rightarrow> SessionResult \<Rightarrow> SessionResult" where
  "stamp n hw r = r\<lparr>batch_size := n, hardware := hw\<rparr>"

definition run_http_test ::
  "(int \<Rightarrow> http_world) \<Rightarrow> string \<Rightarrow> int \<Rightarrow> real \<Rightarrow> real \<Rightarrow> string \<Rightarrow> py_exn + SessionResult list" where
  "run_http_test envs u n w timeout hw =
     (let tasks = map (\<lambda>i. http_session (envs i) u i w) (py_range n) in
      and_then (gather tasks) (\<lambda>results. Inr (map (stamp n hw) results)))"

section \<open>WebSocket mode\<close>

text \<open>
  A message received on the connection, after \<^verbatim>\<open>json.loads\<close>: what
  \<^verbatim>\<open>response.get("type")\<close> gives (an exception when the message is not a dictionary),
  its text in an f-string, and what reading
  \<^verbatim>\<open>response.get("data", {}).get("observation", {})\<close> and its four keys gives.
\<close>

record ws_message =
  msg_type :: "py_exn + string option"
  msg_repr :: string
  msg_observation :: "py_exn + observation"

record ws_world =
  ws_now :: string
  ws_clock :: "nat \<Rightarrow> real"
  ws_connect :: "py_exn option"
  reset_send :: "py_exn option"
  reset_recv :: "py_exn + ws_message"
  step_send :: "py_exn option"
  step_recv :: "py_exn + ws_message"
  close_send :: "py_exn option"
  ws_leave :: "py_exn option"

text \<open>
  \<^verbatim>\<open>
  async def ws_session(ws_url, request_id, wait_seconds, timeout=60.0):
      if websockets is None:
          raise ImportError("websockets not installed: pip install websockets")
      timestamp = now_iso()
      t0 = time.perf_counter()
      try:
          t_connect_start = time.perf_counter()
          ws = await asyncio.wait_for(websockets.connect(ws_url, open_timeout=timeout), timeout=timeout)
          t_connect_end = time.perf_counter()
          connect_latency = t_connect_end - t_connect_start
          async with ws:
              t_reset_start = time.perf_counter()
              await ws.send(json.dumps({"type": "reset", "data": {}}))
              reset_response = json.loads(await asyncio.wait_for(ws.recv(), timeout))
              t_reset_end = time.perf_counter()
              reset_latency = t_reset_end - t_reset_start
              if reset_response.get("type") == "error":
                  raise RuntimeError(f"Reset error: {reset_response}")
              t_step_start = time.perf_counter()
              await ws.send(json.dumps({"type": "step", "data": {"wait_seconds": wait_seconds}}))
              step_response = json.loads(await asyncio.wait_for(ws.recv(), timeout))
              t_step_end = time.perf_counter()
              step_latency = t_step_end - t_step_start
              if step_response.get("type") == "error":
                  raise RuntimeError(f"Step error: {step_response}")
              await ws.send(json.dumps({"type": "close"}))
          total_latency = time.perf_counter() - t0
          obs = step_response.get("data", {}).get("observation", {})
          return SessionResult(..., mode="ws", connect_latency=connect_latency, ...)
      except Exception as e:
          total_latency = time.perf_counter() - t0
          return SessionResult(..., mode="ws", total_latency=total_latency,
              success=False, error_type=type(e).__name__, error_message=str(e))
  \<close>
  The first argument \<open>websockets\<close> is the module's global of that name: \<open>False\<close> when
  the import failed (\<^verbatim>\<open>websockets = None\<close>).
\<close>

definition raise_if_error :: "string \<Rightarrow> ws_message \<Rightarrow> unit timed" where
  "raise_if_error phase response =
     seq (await (msg_type response)) (\<lambda>ty.
       if ty = Some ''error'' then await (Inl (RuntimeError (phase @ '' error: '' @ msg_repr response)))
       else ret ())"

definition ws_try :: "ws_world \<Rightarrow> int \<Rightarrow> string \<Rightarrow> real \<Rightarrow> real \<Rightarrow> SessionResult timed" where
  "ws_try env rid ts w t0 =
     seq (perf_counter (ws_clock env)) (\<lambda>t_connect_start.
     seq (check (ws_connect env)) (\<lambda>_.
     seq (perf_counter (ws_clock env)) (\<lambda>t_connect_end.
     seq (async_with (ws_leave env)
           (seq (perf_counter (ws_clock env)) (\<lambda>t_reset_start.
            seq (check (reset_send env)) (\<lambda>_.
            seq (await (reset_recv env)) (\<lambda>reset_response.
            seq (perf_counter (ws_clock env)) (\<lambda>t_reset_end.
            seq (raise_if_error ''Reset'' reset_response) (\<lambda>_.
            seq (perf_counter (ws_clock env)) (\<lambda>t_step_start.
            seq (check (step_send env)) (\<lambda>_.
            seq (await (step_recv env)) (\<lambda>step_response.
            seq (perf_counter (ws_clock env)) (\<lambda>t_step_end.
            seq (raise_if_error ''Step'' step_response) (\<lambda>_.
            seq (check (close_send env)) (\<lambda>_.
              ret (t_reset_end - t_reset_start, t_step_end - t_step_start,
                   step_response))))))))))))))
       (\<lambda>(reset_lat, step_lat, step_response).
     seq (perf_counter (ws_clock env)) (\<lambda>t_end.
     seq (await (msg_observation step_response)) (\<lambda>obs.
       ret ((new_SessionResult rid ''ws'' ts w)\<lparr>
              connect_latency := t_connect_end - t_connect_start,
              reset_latency := reset_lat,
              step_latency := step_lat,
              total_latency := t_end - t0,
              waited_seconds := get_or (obs_waited_seconds obs) 0,
              pid := get_or (obs_pid obs) 0,
              session_hash := get_or (obs_session_hash obs) [],
              host_url := get_or (obs_host_url obs) []\<rparr>)))))))"

definition ws_session ::
  "bool \<Rightarrow> ws_world \<Rightarrow> string \<Rightarrow> int \<Rightarrow> real \<Rightarrow> real \<Rightarrow> py_exn + SessionResult" where
  "ws_session websockets env ws_url rid w timeout =
     (if \<not> websockets then Inl (ImportError ''websockets not installed: pip install websockets'')
      else
        fst (seq (perf_counter (ws_clock env)) (\<lambda>t0.
               try_except (ws_try env rid (ws_now env) w t0)
                 (session_failed (ws_clock env) rid ''ws'' (ws_now env) w t0)) 0))"

definition run_ws_test ::
  "bool \<Rightarrow> (int \<Rightarrow> ws_world) \<Rightarrow> string \<Rightarrow> int \<Rightarrow> real \<Rightarrow> real \<Rightarrow> string
    \<Rightarrow> py_exn + SessionResult list" where
  "run_ws_test websockets envs u n w timeout hw =
     (let ws_url = convert_to_ws_url u;
          tasks = map (\<lambda>i. ws_session websockets (envs i) ws_url i w timeout) (py_range n)
      in and_then (gather tasks) (\<lambda>results. Inr (map (stamp n hw) results)))"

section \<open>Test runners\<close>

text \<open>
  The world of one batch: the two clock readings of \<^verbatim>\<open>run_single_test\<close> around the
  batch, the \<^verbatim>\<open>now_iso()\<close> of the summary, and the worlds of its sessions.
\<close>

record batch_world =
  t_start :: real
  t_end :: real
  summary_now :: string
  http_envs :: "int \<Rightarrow> http_world"
  ws_envs :: "int \<Rightarrow> ws_world"

text \<open>
  \<^verbatim>\<open>
  async def run_single_test(url, num_requests, wait_seconds, mode, timeout, repetition=1, ...):
      start = time.perf_counter()
      if mode == "ws":
          if websockets is None:
              raise ImportError("websockets not installed for ws mode")
          results = await run_ws_test(url, num_requests, wait_seconds, timeout, hardware)
      else:
          results = await run_http_test(url, num_requests, wait_seconds, timeout, hardware)
      total_wall_time = time.perf_counter() - start
      summary = compute_summary(results, mode, url, num_requests, wait_seconds, repetition,
                                total_wall_time, hardware)
      ...
      return summary
  \<close>
  Printing and the files written under \<^verbatim>\<open>output_dir\<close> are not modelled.
\<close>

definition run_single_test ::
  "bool \<Rightarrow> batch_world \<Rightarrow> string \<Rightarrow> int \<Rightarrow> real \<Rightarrow> string \<Rightarrow> real \<Rightarrow> int \<Rightarrow> string
    \<Rightarrow> py_exn + RunSummary" where
  "run_single_test websockets env u n w m timeout rep hw =
     and_then
       (if m = ''ws'' then
          (if \<not> websockets then Inl (ImportError ''websockets not installed for ws mode'')
           else run_ws_test websockets (ws_envs env) u n w timeout hw)
        else run_http_test (http_envs env) u n w timeout hw)
       (\<lambda>results.
          compute_summary (summary_now env) results m u n w rep (t_end env - t_start env) hw)"

text \<open>
  \<^verbatim>\<open>
  async def run_grid_sweep(url, requests_grid, wait_grid, mode, timeout, repetitions=1, ...):
      all_summaries = []
      total_configs = len(requests_grid) * len(wait_grid) * repetitions
      current = 0
      for n in requests_grid:
          for w in wait_grid:
              for rep in range(1, repetitions + 1):
                  current += 1
                  summary = await run_single_test(url=url, num_requests=n, wait_seconds=w,
                      mode=mode, timeout=timeout, hardware=hardware, repetition=rep, ...)
                  all_summaries.append(summary)
                  if current < total_configs:
                      await asyncio.sleep(0.5)
      return all_summaries
  \<close>
  The three loops are three recursive functions over the state
  \<open>(current, all_summaries)\<close>; \<open>run current n w rep\<close> is the call of
  \<^verbatim>\<open>run_single_test\<close> in the world of the batch numbered \<open>current\<close>.  An exception of a
  batch ends the sweep.  The pause between batches is not modelled.
\<close>

type_synonym sweep_state = "int \<times> RunSummary list"

fun sweep_reps ::
  "(int \<Rightarrow> int \<Rightarrow> py_exn + RunSummary) \<Rightarrow> int list \<Rightarrow> sweep_state \<Rightarrow> py_exn + sweep_state" where
  "sweep_reps run [] st = Inr st"
| "sweep_reps run (rep # reps) st =
     (let current = fst st + 1 in
      and_then (run current rep) (\<lambda>summary.
        sweep_reps run reps (current, snd st @ [summary])))"

fun sweep_waits ::
  "(int \<Rightarrow> real \<Rightarrow> int \<Rightarrow> py_exn + RunSummary) \<Rightarrow> int \<Rightarrow> real list \<Rightarrow> sweep_state
    \<Rightarrow> py_exn + sweep_state" where
  "sweep_waits run repetitions [] st = Inr st"
| "sweep_waits run repetitions (w # ws) st =
     and_then (sweep_reps (\<lambda>current. run current w) [1..repetitions] st)
       (sweep_waits run repetitions ws)"

fun sweep_requests ::
  "(int \<Rightarrow> int \<Rightarrow> real \<Rightarrow> int \<Rightarrow> py_exn + RunSummary) \<Rightarrow> real list \<Rightarrow> int \<Rightarrow> int list
    \<Rightarrow> sweep_state \<Rightarrow> py_exn + sweep_state" where
  "sweep_requests run wait_grid repetitions [] st = Inr st"
| "sweep_requests run wait_grid repetitions (n # ns) st =
     and_then (sweep_waits (\<lambda>current. run current n) repetitions wait_grid st)
       (sweep_requests run wait_grid repetitions ns)"

definition run_grid_sweep ::
  "bool \<Rightarrow> (int \<Rightarrow> batch_world) \<Rightarrow> string \<Rightarrow> int list \<Rightarrow> real list \<Rightarrow> string \<Rightarrow> real \<Rightarrow> int
    \<Rightarrow> string \<Rightarrow> py_exn + RunSummary list" where
  "run_grid_sweep websockets envs u requests_grid wait_grid m timeout repetitions hw =
     and_then
       (sweep_requests
          (\<lambda>current n w rep. run_single_test websockets (envs current) u n w m timeout rep hw)
          wait_grid repetitions requests_grid (0, []))
       (\<lambda>st. Inr (snd st))"

section \<open>Example worlds\<close>

text \<open>
  Concrete worlds on which the statements below are evaluated: a server that answers
  every request (the clock advances by one second per reading), a server whose step
  request times out (httpx raises \<^verbatim>\<open>ReadTimeout\<close>, whose \<^verbatim>\<open>str\<close> is empty), a
  server that answers the reset request with status 500 (\<^verbatim>\<open>raise_for_status\<close> raises
  \<^verbatim>\<open>HTTPStatusError\<close>), a WebSocket server that answers, one that answers the step
  message with a message of type \<^verbatim>\<open>error\<close>, and one whose connection attempt times
  out (\<^verbatim>\<open>asyncio.wait_for\<close> raises \<^verbatim>\<open>TimeoutError()\<close>, whose \<^verbatim>\<open>str\<close> is empty).
\<close>

definition read_timeout :: py_exn where
  "read_timeout = Raised (Abs_class_name ''ReadTimeout'') []"

definition connect_timeout :: py_exn where
  "connect_timeout = Raised (Abs_class_name ''TimeoutError'') []"

definition status_500 :: py_exn where
  "status_500 = Raised (Abs_class_name ''HTTPStatusError'') ''Server error 500 Internal Server Error''"

definition example_observation :: observation where
  "example_observation =
     \<lparr> obs_waited_seconds = Some 1, obs_pid = Some 7,
       obs_session_hash = Some ''abc'', obs_host_url = Some ''http://localhost:8000'' \<rparr>"

definition example_response :: http_response where
  "example_response = \<lparr> raise_for_status = None, json_observation = Inr example_observation \<rparr>"

definition http_ok :: http_world where
  "http_ok =
     \<lparr> http_now = ''2025-01-01T00:00:00Z'', http_clock = (\<lambda>i. real i),
       reset_post = Inr example_response, step_post = Inr example_response \<rparr>"

definition http_timeout :: http_world where
  "http_timeout =
     \<lparr> http_now = ''2025-01-01T00:00:00Z'', http_clock = (\<lambda>i. real i),
       reset_post = Inr example_response, step_post = Inl read_timeout \<rparr>"

definition http_500 :: http_world where
  "http_500 =
     \<lparr> http_now = ''2025-01-01T00:00:00Z'', http_clock = (\<lambda>i. real i),
       reset_post = Inr \<lparr> raise_for_status = Some status_500,
                             json_observation = Inr example_observation \<rparr>,
       step_post = Inr example_response \<rparr>"

definition example_message :: ws_message where
  "example_message =
     \<lparr> msg_type = Inr (Some ''observation''), msg_repr = ''{...}'',
       msg_observation = Inr example_observation \<rparr>"

definition ws_ok :: ws_world where
  "ws_ok =
     \<lparr> ws_now = ''2025-01-01T00:00:00Z'', ws_clock = (\<lambda>i. real i),
       ws_connect = None, reset_send = None, reset_recv = Inr example_message,
       step_send = None, step_recv = Inr example_message,
       close_send = None, ws_leave = None \<rparr>"

definition error_message_reply :: ws_message where
  "error_message_reply =
     \<lparr> msg_type = Inr (Some ''error''), msg_repr = ''{...}'',
       msg_observation = Inr example_observation \<rparr>"

definition ws_error_reply :: ws_world where
  "ws_error_reply = ws_ok\<lparr> step_recv := Inr error_message_reply \<rparr>"

definition ws_timeout :: ws_world where
  "ws_timeout = ws_ok\<lparr> ws_connect := Some connect_timeout \<rparr>"

definition example_batch :: batch_world where
  "example_batch =
     \<lparr> t_start = 10, t_end = 12, summary_now = ''2025-01-01T00:00:02Z'',
       http_envs = (\<lambda>i. if i = 1 then http_timeout else http_ok),
       ws_envs = (\<lambda>i. if i = 1 then ws_timeout else ws_ok) \<rparr>"

text \<open>The records of a batch of two sessions in \<open>example_batch\<close> (the second one times
  out), stamped with batch size 2 and hardware \<^verbatim>\<open>t4-small\<close>; and a batch of two HTTP
  sessions that both time out.\<close>

definition example_http_results :: "SessionResult list" where
  "example_http_results =
     [(new_SessionResult 0 ''http'' ''2025-01-01T00:00:00Z'' 1)\<lparr>
        batch_size := 2, hardware := ''t4-small'',
        reset_latency := 1, step_latency := 1, total_latency := 5,
        waited_seconds := 1, pid := 7, session_hash := ''abc'',
        host_url := ''http://localhost:8000''\<rparr>,
      (new_SessionResult 1 ''http'' ''2025-01-01T00:00:00Z'' 1)\<lparr>
        batch_size := 2, hardware := ''t4-small'',
        total_latency := 4, success := False,
        error_type := Some ''ReadTimeout'', error_message := Some []\<rparr>]"

definition example_ws_results :: "SessionResult list" where
  "example_ws_results =
     [(new_SessionResult 0 ''ws'' ''2025-01-01T00:00:00Z'' 1)\<lparr>
        batch_size := 2, hardware := ''t4-small'',
        connect_latency := 1, reset_latency := 1, step_latency := 1, total_latency := 7,
        waited_seconds := 1, pid := 7, session_hash := ''abc'',
        host_url := ''http://localhost:8000''\<rparr>,
      (new_SessionResult 1 ''ws'' ''2025-01-01T00:00:00Z'' 1)\<lparr>
        batch_size := 2, hardware := ''t4-small'',
        total_latency := 2, success := False,
        error_type := Some ''TimeoutError'', error_message := Some []\<rparr>]"

definition example_failed_results :: "SessionResult list" where
  "example_failed_results =
     [(new_SessionResult 0 ''http'' ''2025-01-01T00:00:00Z'' 1)\<lparr>
        batch_size := 2, hardware := ''t4-small'',
        total_latency := 4, success := False,
        error_type := Some ''ReadTimeout'', error_message := Some []\<rparr>,
      (new_SessionResult 1 ''http'' ''2025-01-01T00:00:00Z'' 1)\<lparr>
        batch_size := 2, hardware := ''t4-small'',
        total_latency := 4, success := False,
        error_type := Some ''ReadTimeout'', error_message := Some []\<rparr>]"

section \<open>The percentile function\<close>

lemma and_then_Inr [simp]: "and_then (Inr v) f = f v"
  by (simp add: and_then_def)

lemma and_then_Inl [simp]: "and_then (Inl e) f = Inl e"
  by (simp add: and_then_def)

lemma py_int_nonneg: "0 \<le> k \<Longrightarrow> py_int k = \<lfloor>k\<rfloor>"
  by (simp add: py_int_def)

lemma getitem_in_range: "0 \<le> i \<Longrightarrow> i < int (length xs) \<Longrightarrow> getitem xs i = Inr (xs ! nat i)"
  by (simp add: getitem_def)

lemma percentile_k_bounds:
  assumes "xs \<noteq> []" "0 \<le> p" "p \<le> 100"
  shows "0 \<le> percentile_k xs p" and "percentile_k xs p \<le> real (length xs) - 1"
proof -
  from assms(1) have n: "1 \<le> real (length xs)"
    by (cases xs) simp_all
  have k: "percentile_k xs p = (real (length xs) - 1) * (p / 100)"
    by (simp add: percentile_k_def)
  from n assms(2) show "0 \<le> percentile_k xs p"
    unfolding k by (intro mult_nonneg_nonneg) simp_all
  have "(real (length xs) - 1) * (p / 100) \<le> (real (length xs) - 1) * 1"
    using n assms(3) by (intro mult_left_mono) simp_all
  then show "percentile_k xs p \<le> real (length xs) - 1"
    unfolding k by simp
qed

lemma percentile_f_bounds:
  assumes "xs \<noteq> []" "0 \<le> p" "p \<le> 100"
  shows "0 \<le> percentile_f xs p" and "percentile_f xs p < int (length xs)"
    and "percentile_f xs p = \<lfloor>percentile_k xs p\<rfloor>"
proof -
  note kb = percentile_k_bounds [OF assms]
  show f: "percentile_f xs p = \<lfloor>percentile_k xs p\<rfloor>"
    by (simp add: percentile_f_def py_int_nonneg kb(1))
  from kb(1) show "0 \<le> percentile_f xs p"
    unfolding f by simp
  have "\<lfloor>percentile_k xs p\<rfloor> \<le> \<lfloor>real (length xs) - 1\<rfloor>"
    using kb(2) by (rule floor_mono)
  also have "\<lfloor>real (length xs) - 1\<rfloor> = int (length xs) - 1"
    by linarith
  finally show "percentile_f xs p < int (length xs)"
    unfolding f by simp
qed

lemma percentile_c_bounds:
  assumes "xs \<noteq> []" "0 \<le> p" "p \<le> 100"
  shows "0 \<le> percentile_c xs p" and "percentile_c xs p < int (length xs)"
    and "percentile_f xs p \<le> percentile_c xs p"
  using percentile_f_bounds(1,2) [OF assms] assms(1)
  by (simp_all add: percentile_c_def)

lemma percentile_in_range:
  assumes "data \<noteq> []" "0 \<le> p" "p \<le> 100"
  shows "percentile data p =
     Inr (sort data ! nat (percentile_f (sort data) p)
          + (percentile_k (sort data) p - real_of_int (percentile_f (sort data) p))
            * (sort data ! nat (percentile_c (sort data) p)
               - sort data ! nat (percentile_f (sort data) p)))"
proof -
  from assms(1) have ne: "sort data \<noteq> []"
    by (metis length_0_conv length_sort)
  show ?thesis
    using assms(1) percentile_f_bounds(1,2) [OF ne assms(2,3)]
      percentile_c_bounds(1,2) [OF ne assms(2,3)]
    by (simp add: percentile_def Let_def getitem_in_range)
qed

lemma percentile_spec_eq:
  assumes "0 \<le> p" "p \<le> 100"
  shows "percentile data p = Inr (percentile_spec data p)"
proof (cases "data = []")
  case True
  then show ?thesis by (simp add: percentile_def percentile_spec_def)
next
  case False
  then have ne: "sort data \<noteq> []"
    by (metis length_0_conv length_sort)
  have k: "percentile_k (sort data) p = (real (length (sort data)) - 1) * p / 100"
    by (simp add: percentile_k_def)
  have f: "percentile_f (sort data) p = \<lfloor>percentile_k (sort data) p\<rfloor>"
    by (rule percentile_f_bounds(3) [OF ne assms])
  have f0: "0 \<le> \<lfloor>percentile_k (sort data) p\<rfloor>"
    using percentile_f_bounds(1) [OF ne assms] f by simp
  have c: "nat (percentile_c (sort data) p)
      = min (nat \<lfloor>percentile_k (sort data) p\<rfloor> + 1) (length (sort data) - 1)"
    using f0 ne unfolding percentile_c_def f by (cases "sort data") (simp_all add: min_def, linarith+) 
  show ?thesis
    unfolding percentile_in_range [OF False assms] percentile_spec_def Let_def c
    using False f0 by (simp add: f k)
qed


lemma sorted_nth_first_last:
  assumes "sorted xs" "i < length xs"
  shows "xs ! 0 \<le> xs ! i" and "xs ! i \<le> xs ! (length xs - 1)"
  using assms by (simp_all add: sorted_nth_mono)

lemma sorted_nth_0_Min:
  assumes "sorted xs" "xs \<noteq> []"
  shows "xs ! 0 = Min (set xs)"
proof (rule sym, rule Min_eqI)
  show "finite (set xs)" by simp
  from assms(2) show "xs ! 0 \<in> set xs" by simp
  fix y assume "y \<in> set xs"
  then obtain i where "i < length xs" "y = xs ! i"
    by (auto simp: in_set_conv_nth)
  with assms(1) show "xs ! 0 \<le> y"
    by (simp add: sorted_nth_mono)
qed

lemma sorted_nth_last_Max:
  assumes "sorted xs" "xs \<noteq> []"
  shows "xs ! (length xs - 1) = Max (set xs)"
proof (rule sym, rule Max_eqI)
  show "finite (set xs)" by simp
  from assms(2) show "xs ! (length xs - 1) \<in> set xs" by simp
  fix y assume "y \<in> set xs"
  then obtain i where "i < length xs" "y = xs ! i"
    by (auto simp: in_set_conv_nth)
  with assms(1) show "y \<le> xs ! (length xs - 1)"
    by (simp add: sorted_nth_mono)
qed

lemma sort_eq_Nil: "sort data = [] \<longleftrightarrow> data = []"
  by (metis length_0_conv length_sort)

lemma sort_nth_0_Min:
  assumes "data \<noteq> []"
  shows "sort data ! 0 = Min (set data)"
  using sorted_nth_0_Min [of "sort data"] assms by (simp add: sort_eq_Nil)

lemma sort_nth_last_Max:
  assumes "data \<noteq> []"
  shows "sort data ! (length data - 1) = Max (set data)"
  using sorted_nth_last_Max [of "sort data"] assms by (simp add: sort_eq_Nil)

lemma percentile_0:
  assumes "data \<noteq> []"
  shows "percentile data 0 = Inr (Min (set data))"
proof -
  have k: "percentile_k (sort data) 0 = 0" by (simp add: percentile_k_def)
  have f: "percentile_f (sort data) 0 = 0" by (simp add: percentile_f_def k py_int_def)
  show ?thesis
    using percentile_in_range [OF assms, of 0] by (simp add: k f sort_nth_0_Min [OF assms])
qed

lemma percentile_100:
  assumes "data \<noteq> []"
  shows "percentile data 100 = Inr (Max (set data))"
proof -
  from assms have n: "1 \<le> length data" by (cases data) simp_all
  have k: "percentile_k (sort data) 100 = real_of_int (int (length data) - 1)"
    by (simp add: percentile_k_def)
  have f: "percentile_f (sort data) 100 = int (length data) - 1"
    unfolding percentile_f_def k using n by (simp add: py_int_def)
  have c: "percentile_c (sort data) 100 = int (length data) - 1"
    by (simp add: percentile_c_def f)
  have idx: "nat (int (length data) - 1) = length data - 1"
    using n by simp
  show ?thesis
    using percentile_in_range [OF assms, of 100] sort_nth_last_Max [OF assms]
    by (simp add: k f c idx)
qed

text \<open>The interpolated value between two sorted neighbours.\<close>

lemma interp_between:
  fixes a b t :: real
  assumes "a \<le> b" "0 \<le> t" "t \<le> 1"
  shows "a \<le> a + t * (b - a)" and "a + t * (b - a) \<le> b"
proof -
  from assms show "a \<le> a + t * (b - a)" by simp
  have "t * (b - a) \<le> 1 * (b - a)"
    using assms by (intro mult_right_mono) simp_all
  then show "a + t * (b - a) \<le> b" by simp
qed

lemma percentile_between:
  assumes "data \<noteq> []" "0 \<le> p" "p \<le> 100"
  obtains v where "percentile data p = Inr v"
    and "sort data ! nat (percentile_f (sort data) p) \<le> v"
    and "v \<le> sort data ! nat (percentile_c (sort data) p)"
proof -
  from assms(1) have ne: "sort data \<noteq> []"
    by (metis length_0_conv length_sort)
  note fb = percentile_f_bounds [OF ne assms(2,3)]
  note cb = percentile_c_bounds [OF ne assms(2,3)]
  let ?s = "sort data"
  let ?f = "percentile_f ?s p" and ?c = "percentile_c ?s p" and ?k = "percentile_k ?s p"
  have le: "?s ! nat ?f \<le> ?s ! nat ?c"
    using fb(1) cb(2,3) by (intro sorted_nth_mono) simp_all
  have t0: "0 \<le> ?k - real_of_int ?f" and t1: "?k - real_of_int ?f \<le> 1"
    unfolding fb(3) by linarith+
  show ?thesis
    using that [OF percentile_in_range [OF assms]] interp_between [OF le t0 t1] by simp
qed

lemma percentile_Min_Max:
  assumes "data \<noteq> []" "0 \<le> p" "p \<le> 100"
  obtains v where "percentile data p = Inr v" "Min (set data) \<le> v" "v \<le> Max (set data)"
proof -
  from assms(1) have ne: "sort data \<noteq> []"
    by (metis length_0_conv length_sort)
  note fb = percentile_f_bounds [OF ne assms(2,3)]
  note cb = percentile_c_bounds [OF ne assms(2,3)]
  obtain v where v: "percentile data p = Inr v"
    "sort data ! nat (percentile_f (sort data) p) \<le> v"
    "v \<le> sort data ! nat (percentile_c (sort data) p)"
    by (rule percentile_between [OF assms])
  have "nat (percentile_f (sort data) p) < length (sort data)"
    using fb(1,2) by linarith
  then have "sort data ! nat (percentile_f (sort data) p) \<in> set data"
    by (metis nth_mem set_sort)
  then have lo: "Min (set data) \<le> sort data ! nat (percentile_f (sort data) p)"
    by simp
  have "nat (percentile_c (sort data) p) < length (sort data)"
    using cb(1,2) by linarith
  then have "sort data ! nat (percentile_c (sort data) p) \<in> set data"
    by (metis nth_mem set_sort)
  then have hi: "sort data ! nat (percentile_c (sort data) p) \<le> Max (set data)"
    by simp
  show ?thesis
    using that [OF v(1)] lo hi v(2,3) by linarith
qed


lemma percentile_k_mono:
  assumes "xs \<noteq> []" "p1 \<le> p2"
  shows "percentile_k xs p1 \<le> percentile_k xs p2"
proof -
  from assms(1) have "0 \<le> real_of_int (int (length xs) - 1)"
    by (cases xs) simp_all
  then have "real_of_int (int (length xs) - 1) * p1 \<le> real_of_int (int (length xs) - 1) * p2"
    using assms(2) by (rule mult_left_mono [rotated])
  then show ?thesis
    by (simp add: percentile_k_def divide_right_mono)
qed

lemma percentile_mono:
  assumes ne: "data \<noteq> []" and p: "0 \<le> p1" "p1 \<le> p2" "p2 \<le> 100"
    and v1: "percentile data p1 = Inr v1" and v2: "percentile data p2 = Inr v2"
  shows "v1 \<le> v2"
proof -
  let ?s = "sort data"
  from ne have sne: "?s \<noteq> []" by (simp add: sort_eq_Nil)
  from p have p1: "p1 \<le> 100" and p2: "0 \<le> p2" by simp_all
  note f1 = percentile_f_bounds [OF sne p(1) p1]
  note f2 = percentile_f_bounds [OF sne p2 p(3)]
  note c1 = percentile_c_bounds [OF sne p(1) p1]
  note c2 = percentile_c_bounds [OF sne p2 p(3)]
  have kk: "percentile_k ?s p1 \<le> percentile_k ?s p2"
    by (rule percentile_k_mono [OF sne p(2)])
  then have ff: "percentile_f ?s p1 \<le> percentile_f ?s p2"
    unfolding f1(3) f2(3) by (rule floor_mono)
  show ?thesis
  proof (cases "percentile_f ?s p1 = percentile_f ?s p2")
    case True
    then have cc: "percentile_c ?s p1 = percentile_c ?s p2"
      by (simp add: percentile_c_def)
    have le: "?s ! nat (percentile_f ?s p2) \<le> ?s ! nat (percentile_c ?s p2)"
      using f2(1) c2(2,3) by (intro sorted_nth_mono) simp_all
    have "(percentile_k ?s p1 - real_of_int (percentile_f ?s p2))
            * (?s ! nat (percentile_c ?s p2) - ?s ! nat (percentile_f ?s p2))
          \<le> (percentile_k ?s p2 - real_of_int (percentile_f ?s p2))
            * (?s ! nat (percentile_c ?s p2) - ?s ! nat (percentile_f ?s p2))"
      using kk le by (intro mult_right_mono) simp_all
    then show ?thesis
      using v1 v2 unfolding percentile_in_range [OF ne p(1) p1]
        percentile_in_range [OF ne p2 p(3)] True cc by simp
  next
    case False
    with ff have lt: "percentile_f ?s p1 < percentile_f ?s p2" by simp
    obtain w1 where w1: "percentile data p1 = Inr w1"
      "w1 \<le> ?s ! nat (percentile_c ?s p1)"
      using percentile_between [OF ne p(1) p1] by blast
    obtain w2 where w2: "percentile data p2 = Inr w2"
      "?s ! nat (percentile_f ?s p2) \<le> w2"
      using percentile_between [OF ne p2 p(3)] by blast
    have "percentile_c ?s p1 \<le> percentile_f ?s p2"
      using lt by (simp add: percentile_c_def)
    then have "?s ! nat (percentile_c ?s p1) \<le> ?s ! nat (percentile_f ?s p2)"
      using c1(1) f2(2) by (intro sorted_nth_mono) simp_all
    with w1 w2 v1 v2 show ?thesis by simp
  qed
qed

lemma percentile_mono_ex:
  assumes p: "0 \<le> p1" "p1 \<le> p2" "p2 \<le> 100"
  shows "\<exists>v1 v2. percentile data p1 = Inr v1 \<and> percentile data p2 = Inr v2 \<and> v1 \<le> v2"
proof (cases "data = []")
  case True
  then show ?thesis by (simp add: percentile_def)
next
  case False
  from p have p1: "p1 \<le> 100" and p2: "0 \<le> p2" by simp_all
  have e1: "percentile data p1 = Inr (percentile_spec data p1)"
    by (rule percentile_spec_eq [OF p(1) p1])
  have e2: "percentile data p2 = Inr (percentile_spec data p2)"
    by (rule percentile_spec_eq [OF p2 p(3)])
  from percentile_mono [OF False p e1 e2] e1 e2 show ?thesis by simp
qed

section \<open>The summary of a batch\<close>

text \<open>The percentiles that \<open>compute_summary\<close> asks for never raise, and neither do
  its divisions: each block of it returns a summary.\<close>

lemma percentile_fixed:
  "percentile xs 50 = Inr (percentile_spec xs 50)"
  "percentile xs 90 = Inr (percentile_spec xs 90)"
  "percentile xs 95 = Inr (percentile_spec xs 95)"
  "percentile xs 99 = Inr (percentile_spec xs 99)"
  by (simp_all add: percentile_spec_eq)

lemma percentile_spec_Nil: "percentile_spec [] p = 0"
  by (simp add: percentile_spec_def)

lemma connect_stats_eq:
  "connect_stats ts s =
     Inr (if ts = [] then s
          else s\<lparr>connect_p50 := percentile_spec ts 50, connect_p95 := percentile_spec ts 95,
                 connect_p99 := percentile_spec ts 99\<rparr>)"
  by (simp add: connect_stats_def percentile_fixed)

lemma reset_stats_eq:
  "reset_stats ts s =
     Inr (if ts = [] then s
          else s\<lparr>reset_p50 := percentile_spec ts 50, reset_p95 := percentile_spec ts 95,
                 reset_p99 := percentile_spec ts 99\<rparr>)"
  by (simp add: reset_stats_def percentile_fixed)

lemma step_stats_eq:
  "step_stats ts s =
     Inr (if ts = [] then s
          else s\<lparr>step_p50 := percentile_spec ts 50, step_p95 := percentile_spec ts 95,
                 step_p99 := percentile_spec ts 99\<rparr>)"
  by (simp add: step_stats_def percentile_fixed)

lemma total_stats_eq:
  "total_stats ts s =
     Inr (if ts = [] then s
          else s\<lparr>total_min := fold min (tl ts) (hd ts), total_max := fold max (tl ts) (hd ts),
                 total_avg := sum_list ts / real (length ts),
                 total_p50 := percentile_spec ts 50, total_p90 := percentile_spec ts 90,
                 total_p95 := percentile_spec ts 95, total_p99 := percentile_spec ts 99\<rparr>)"
  by (cases ts) (simp_all add: total_stats_def percentile_fixed mean_def)

lemma throughput_eq:
  "throughput succeeded n w wall s =
     Inr (if wall > 0
          then s\<lparr>requests_per_second := real_of_int (len succeeded) / wall,
                 effective_concurrency := real_of_int n * w / wall\<rparr>
          else s)"
  by (simp add: throughput_def truediv_def)

lemma error_rate_total:
  "(if results \<noteq> []
    then truediv (real_of_int (len (failures :: 'a list))) (real_of_int (len (results :: 'b list)))
    else Inr 0)
   = Inr (if results = [] then 0
          else real_of_int (len failures) / real_of_int (len results))"
  by (simp add: truediv_def len_def)

lemma truediv_len:
  "results \<noteq> [] \<Longrightarrow> truediv a (real_of_int (len results)) = Inr (a / real_of_int (len results))"
  by (simp add: truediv_def len_def)

lemma compute_summary_all_failed:
  assumes "filter success results = []"
  shows "compute_summary now results m u n w rep wall hw =
     Inr ((new_RunSummary m u n)\<lparr>
            summary_batch_size := n, wait_seconds := w, repetition := rep,
            summary_timestamp := now, summary_hardware := hw,
            successful := 0,
            failed := len (filter (\<lambda>r. \<not> success r) results),
            error_rate := (if results = [] then 0
               else real_of_int (len (filter (\<lambda>r. \<not> success r) results))
                    / real_of_int (len results)),
            total_wall_time := wall\<rparr>)"
  using assms by (simp add: compute_summary_def Let_def error_rate_total len_def)

lemma compute_summary_some_success:
  assumes "filter success results \<noteq> []"
  shows "compute_summary now results m u n w rep wall hw =
     Inr \<lparr> summary_mode = m, url = u, num_requests = n,
       summary_batch_size = n, wait_seconds = w, repetition = rep,
       summary_timestamp = now, summary_hardware = hw,
       successful = len (filter success results),
       failed = len (filter (\<lambda>r. \<not> success r) results),
       error_rate = real_of_int (len (filter (\<lambda>r. \<not> success r) results))
                    / real_of_int (len results),
       total_wall_time = wall,
       connect_p50 = percentile_spec (map connect_latency
          (filter (\<lambda>r. connect_latency r > 0) (filter success results))) 50,
       connect_p95 = percentile_spec (map connect_latency
          (filter (\<lambda>r. connect_latency r > 0) (filter success results))) 95,
       connect_p99 = percentile_spec (map connect_latency
          (filter (\<lambda>r. connect_latency r > 0) (filter success results))) 99,
       reset_p50 = percentile_spec (map reset_latency
          (filter (\<lambda>r. reset_latency r > 0) (filter success results))) 50,
       reset_p95 = percentile_spec (map reset_latency
          (filter (\<lambda>r. reset_latency r > 0) (filter success results))) 95,
       reset_p99 = percentile_spec (map reset_latency
          (filter (\<lambda>r. reset_latency r > 0) (filter success results))) 99,
       step_p50 = percentile_spec (map step_latency
          (filter (\<lambda>r. step_latency r > 0) (filter success results))) 50,
       step_p95 = percentile_spec (map step_latency
          (filter (\<lambda>r. step_latency r > 0) (filter success results))) 95,
       step_p99 = percentile_spec (map step_latency
          (filter (\<lambda>r. step_latency r > 0) (filter success results))) 99,
       total_min = fold min (tl (map total_latency (filter success results)))
                     (hd (map total_latency (filter success results))),
       total_max = fold max (tl (map total_latency (filter success results)))
                     (hd (map total_latency (filter success results))),
       total_avg = sum_list (map total_latency (filter success results))
                     / real (length (filter success results)),
       total_p50 = percentile_spec (map total_latency (filter success results)) 50,
       total_p90 = percentile_spec (map total_latency (filter success results)) 90,
       total_p95 = percentile_spec (map total_latency (filter success results)) 95,
       total_p99 = percentile_spec (map total_latency (filter success results)) 99,
       requests_per_second =
         (if wall > 0 then real_of_int (len (filter success results)) / wall else 0),
       effective_concurrency = (if wall > 0 then real_of_int n * w / wall else 0),
       unique_pids = int (card (set (map pid
          (filter (\<lambda>r. pid r \<noteq> 0) (filter success results))))),
       unique_sessions = int (card (set (map session_hash
          (filter (\<lambda>r. session_hash r \<noteq> []) (filter success results))))),
       unique_hosts = int (card (set (map host_url
          (filter (\<lambda>r. host_url r \<noteq> []) (filter success results))))) \<rparr>"
proof -
  from assms have ne: "results \<noteq> []" by auto
  show ?thesis
    using assms ne
    by (simp add: compute_summary_def Let_def truediv_len connect_stats_eq reset_stats_eq
        step_stats_eq total_stats_eq throughput_eq distribution_def new_RunSummary_def
        percentile_spec_Nil)
qed

lemma percentile_spec_mono:
  assumes "0 \<le> p1" "p1 \<le> p2" "p2 \<le> 100"
  shows "percentile_spec xs p1 \<le> percentile_spec xs p2"
proof -
  from assms have b: "p1 \<le> 100" "0 \<le> p2" by simp_all
  from percentile_mono_ex [OF assms, of xs]
  show ?thesis
    by (simp add: percentile_spec_eq [OF assms(1) b(1)] percentile_spec_eq [OF b(2) assms(3)])
qed

lemma len_filter_partition:
  "len (filter P xs) + len (filter (\<lambda>x. \<not> P x) xs) = len xs"
  using sum_length_filter_compl [of P xs] by (simp add: len_def)

lemma compute_summary_returns:
  "\<exists>s. compute_summary now results m u n w rep wall hw = Inr s"
  by (cases "filter success results = []")
    (simp_all add: compute_summary_all_failed compute_summary_some_success)

section \<open>Sessions, batches and the sweep\<close>

lemmas timed_defs = seq_def perf_counter_def await_def check_def ret_def try_except_def
  async_with_def

text \<open>A session returns the record its \<^verbatim>\<open>try\<close> body built, or the record of the
  handler, whose clock reading is the next one after the readings of the body.\<close>

lemma http_session_eq:
  "http_session env u rid w =
     (case http_try env rid (http_now env) w (http_clock env 0) 1 of
        (Inr r, j) \<Rightarrow> Inr r
      | (Inl e, j) \<Rightarrow>
          Inr (failed_result rid ''http'' (http_now env) w
                 (http_clock env j - http_clock env 0) e))"
  by (simp add: http_session_def session_failed_def timed_defs split: prod.splits sum.splits)

lemma http_try_Inr:
  assumes "http_try env rid ts w t0 i = (Inr r, j)"
  shows "success r" and "connect_latency r = 0"
  using assms
  by (auto simp: http_try_def timed_defs new_SessionResult_def
      split: sum.splits option.splits prod.splits if_splits)

lemma ws_session_eq:
  "ws_session True env u rid w timeout =
     (case ws_try env rid (ws_now env) w (ws_clock env 0) 1 of
        (Inr r, j) \<Rightarrow> Inr r
      | (Inl e, j) \<Rightarrow>
          Inr (failed_result rid ''ws'' (ws_now env) w
                 (ws_clock env j - ws_clock env 0) e))"
  by (simp add: ws_session_def session_failed_def timed_defs split: prod.splits sum.splits)

lemma ws_try_Inr:
  assumes "ws_try env rid ts w t0 i = (Inr r, j)"
  shows "success r"
  using assms
  by (auto simp: ws_try_def raise_if_error_def timed_defs new_SessionResult_def
      split: sum.splits option.splits prod.splits if_splits)

lemma http_session_returns: "\<exists>r. http_session env u rid w = Inr r"
  by (simp add: http_session_eq split: prod.splits sum.splits)

lemma ws_session_returns: "\<exists>r. ws_session True env u rid w timeout = Inr r"
  by (simp add: ws_session_eq split: prod.splits sum.splits)

lemma http_session_connect_latency:
  assumes "http_session env u rid w = Inr r"
  shows "connect_latency r = 0"
  using assms http_try_Inr(2)
  by (auto simp: http_session_eq failed_result_def new_SessionResult_def
      split: prod.splits sum.splits)

text \<open>Gathering tasks that all return gives their results in order.\<close>

lemma gather_map_Inr: "gather (map Inr rs) = Inr rs"
  by (induction rs) simp_all

lemma gather_returning:
  assumes "\<And>x. \<exists>r. task x = Inr r"
  shows "gather (map task xs) = Inr (map (\<lambda>x. projr (task x)) xs)"
proof -
  have "task x = Inr (projr (task x))" for x
    using assms [of x] by auto
  then have "map task xs = map Inr (map (\<lambda>x. projr (task x)) xs)"
    by simp
  then show ?thesis
    by (simp only: gather_map_Inr)
qed

lemma length_py_range: "0 \<le> n \<Longrightarrow> int (length (py_range n)) = n"
  by (simp add: py_range_def)

lemma nth_py_range: "0 \<le> i \<Longrightarrow> i < n \<Longrightarrow> py_range n ! nat i = i"
  by (simp add: py_range_def nth_upto)

lemma run_http_test_eq:
  "run_http_test envs u n w timeout hw =
     Inr (map (\<lambda>i. stamp n hw (projr (http_session (envs i) u i w))) (py_range n))"
  by (simp add: run_http_test_def gather_returning [OF http_session_returns] comp_def)

lemma run_ws_test_eq:
  "run_ws_test True envs u n w timeout hw =
     Inr (map (\<lambda>i. stamp n hw (projr (ws_session True (envs i) (convert_to_ws_url u) i w timeout)))
            (py_range n))"
  by (simp add: run_ws_test_def gather_returning [OF ws_session_returns] comp_def)

lemma run_http_test_connect_latency:
  assumes "run_http_test envs u n w timeout hw = Inr results" "r \<in> set results"
  shows "connect_latency r = 0"
proof -
  from assms obtain i where "r = stamp n hw (projr (http_session (envs i) u i w))"
    by (auto simp: run_http_test_eq)
  moreover obtain r0 where "http_session (envs i) u i w = Inr r0"
    using http_session_returns by blast
  ultimately show ?thesis
    using http_session_connect_latency [of "envs i" u i w r0] by (simp add: stamp_def)
qed

text \<open>A batch ends in a summary that carries its configuration.\<close>

lemma compute_summary_config:
  assumes "compute_summary now results m u n w rep wall hw = Inr s"
  shows "num_requests s = n" and "wait_seconds s = w" and "repetition s = rep"
  using assms
  by (cases "filter success results = []";
      auto simp: compute_summary_all_failed compute_summary_some_success new_RunSummary_def)+

lemma run_single_test_returns:
  assumes "m = ''ws'' \<longrightarrow> websockets"
  shows "\<exists>s. run_single_test websockets env u n w m timeout rep hw = Inr s
           \<and> num_requests s = n \<and> wait_seconds s = w \<and> repetition s = rep"
proof -
  obtain results where r:
    "(if m = ''ws'' then
        (if \<not> websockets then Inl (ImportError ''websockets not installed for ws mode'')
         else run_ws_test websockets (ws_envs env) u n w timeout hw)
      else run_http_test (http_envs env) u n w timeout hw) = Inr results"
    using assms by (cases "m = ''ws''") (simp_all add: run_ws_test_eq run_http_test_eq)
  obtain s where s:
    "compute_summary (summary_now env) results m u n w rep (t_end env - t_start env) hw = Inr s"
    using compute_summary_returns by blast
  have "run_single_test websockets env u n w m timeout rep hw = Inr s"
    unfolding run_single_test_def r using s by simp
  with compute_summary_config [OF s] show ?thesis by simp
qed

text \<open>The three loops of the sweep, over any \<open>run\<close> that returns a summary carrying its
  cell.\<close>

lemma sweep_reps_cells:
  assumes "\<And>c rep. \<exists>s. run c rep = Inr s \<and> cell s = (n, w, rep)"
  shows "\<exists>c' out. sweep_reps run reps (c0, acc) = Inr (c', acc @ out)
           \<and> map cell out = map (\<lambda>rep. (n, w, rep)) reps"
proof (induction reps arbitrary: c0 acc)
  case Nil
  then show ?case by simp
next
  case (Cons rep reps)
  obtain s where s: "run (c0 + 1) rep = Inr s" "cell s = (n, w, rep)"
    using assms by blast
  obtain c' out where rest:
    "sweep_reps run reps (c0 + 1, (acc @ [s])) = Inr (c', (acc @ [s]) @ out)"
    "map cell out = map (\<lambda>rep. (n, w, rep)) reps"
    using Cons.IH by blast
  have "sweep_reps run (rep # reps) (c0, acc) = Inr (c', acc @ (s # out))"
    using s(1) rest(1) by simp
  moreover have "map cell (s # out) = map (\<lambda>rep. (n, w, rep)) (rep # reps)"
    using s(2) rest(2) by simp
  ultimately show ?case by blast
qed

lemma sweep_waits_cells:
  assumes "\<And>c w rep. \<exists>s. run c w rep = Inr s \<and> cell s = (n, w, rep)"
  shows "\<exists>c' out. sweep_waits run R ws (c0, acc) = Inr (c', acc @ out)
           \<and> map cell out = concat (map (\<lambda>w. map (\<lambda>rep. (n, w, rep)) [1..R]) ws)"
proof (induction ws arbitrary: c0 acc)
  case Nil
  then show ?case by simp
next
  case (Cons w ws)
  have "\<And>c rep. \<exists>s. run c w rep = Inr s \<and> cell s = (n, w, rep)"
    using assms by blast
  from sweep_reps_cells [of "\<lambda>c. run c w" cell n w "[1..R]" c0 acc, OF this]
  obtain c1 out1 where first:
    "sweep_reps (\<lambda>c. run c w) [1..R] (c0, acc) = Inr (c1, acc @ out1)"
    "map cell out1 = map (\<lambda>rep. (n, w, rep)) [1..R]"
    by blast
  obtain c' out where rest:
    "sweep_waits run R ws (c1, acc @ out1) = Inr (c', (acc @ out1) @ out)"
    "map cell out = concat (map (\<lambda>w. map (\<lambda>rep. (n, w, rep)) [1..R]) ws)"
    using Cons.IH by blast
  have "sweep_waits run R (w # ws) (c0, acc) = Inr (c', acc @ (out1 @ out))"
    using first(1) rest(1) by simp
  moreover have "map cell (out1 @ out)
      = concat (map (\<lambda>w. map (\<lambda>rep. (n, w, rep)) [1..R]) (w # ws))"
    using first(2) rest(2) by simp
  ultimately show ?case by blast
qed

lemma sweep_requests_cells:
  assumes "\<And>c n w rep. \<exists>s. run c n w rep = Inr s \<and> cell s = (n, w, rep)"
  shows "\<exists>c' out. sweep_requests run ws R ns (c0, acc) = Inr (c', acc @ out)
           \<and> map cell out
               = concat (map (\<lambda>n. concat (map (\<lambda>w. map (\<lambda>rep. (n, w, rep)) [1..R]) ws)) ns)"
proof (induction ns arbitrary: c0 acc)
  case Nil
  then show ?case by simp
next
  case (Cons n ns)
  have "\<And>c w rep. \<exists>s. run c n w rep = Inr s \<and> cell s = (n, w, rep)"
    using assms by blast
  from sweep_waits_cells [of "\<lambda>c. run c n" cell n R ws c0 acc, OF this]
  obtain c1 out1 where first:
    "sweep_waits (\<lambda>c. run c n) R ws (c0, acc) = Inr (c1, acc @ out1)"
    "map cell out1 = concat (map (\<lambda>w. map (\<lambda>rep. (n, w, rep)) [1..R]) ws)"
    by blast
  obtain c' out where rest:
    "sweep_requests run ws R ns (c1, acc @ out1) = Inr (c', (acc @ out1) @ out)"
    "map cell out
       = concat (map (\<lambda>n. concat (map (\<lambda>w. map (\<lambda>rep. (n, w, rep)) [1..R]) ws)) ns)"
    using Cons.IH by blast
  have "sweep_requests run ws R (n # ns) (c0, acc) = Inr (c', acc @ (out1 @ out))"
    using first(1) rest(1) by simp
  moreover have "map cell (out1 @ out)
      = concat (map (\<lambda>n. concat (map (\<lambda>w. map (\<lambda>rep. (n, w, rep)) [1..R]) ws)) (n # ns))"
    using first(2) rest(2) by simp
  ultimately show ?case by blast
qed

lemma length_cells:
  "length (concat (map (\<lambda>n. concat (map (\<lambda>w. map (f n w) reps) ws)) ns))
     = length ns * (length ws * length reps)"
proof -
  have inner: "length (concat (map (\<lambda>w. map (f n w) reps) ws)) = length ws * length reps" for n
    by (induction ws) simp_all
  show ?thesis
    by (induction ns) (simp_all add: inner)
qed

lemma run_grid_sweep_cells:
  assumes "m = ''ws'' \<longrightarrow> websockets"
  shows "\<exists>out. run_grid_sweep websockets envs u ns ws m timeout R hw = Inr out
           \<and> map (\<lambda>s. (num_requests s, wait_seconds s, repetition s)) out
               = concat (map (\<lambda>n. concat (map (\<lambda>w. map (\<lambda>rep. (n, w, rep)) [1..R]) ws)) ns)"
proof -
  let ?run = "\<lambda>c n w rep. run_single_test websockets (envs c) u n w m timeout rep hw"
  let ?cell = "\<lambda>s. (num_requests s, wait_seconds s, repetition s)"
  have "\<And>c n w rep. \<exists>s. ?run c n w rep = Inr s \<and> ?cell s = (n, w, rep)"
    using run_single_test_returns [OF assms] by simp
  from sweep_requests_cells [of ?run ?cell ws R ns 0 "[]", OF this]
  show ?thesis
    by (auto simp: run_grid_sweep_def)
qed

lemma gather_length:
  "gather ts = Inr rs \<Longrightarrow> length rs = length ts"
proof (induction ts arbitrary: rs)
  case Nil
  then show ?case by simp
next
  case (Cons t ts)
  then show ?case
    by (auto simp: and_then_def split: sum.splits)
qed

lemma run_http_test_length:
  assumes "run_http_test envs u n w timeout hw = Inr results" "0 \<le> n"
  shows "len results = n"
  using assms by (auto simp: run_http_test_eq len_def length_py_range)

lemma run_ws_test_length:
  assumes "run_ws_test websockets envs u n w timeout hw = Inr results" "0 \<le> n"
  shows "len results = n"
proof -
  from assms(1) obtain rs where
    "gather (map (\<lambda>i. ws_session websockets (envs i) (convert_to_ws_url u) i w timeout)
       (py_range n)) = Inr rs" "results = map (stamp n hw) rs"
    by (auto simp: run_ws_test_def Let_def and_then_def split: sum.splits)
  then show ?thesis
    using gather_length [of _ rs] length_py_range [OF assms(2)] by (simp add: len_def)
qed

text \<open>The clock readings of a failed attempt: at least the start of the session.\<close>

lemma http_try_clock:
  assumes "http_try env rid ts w t0 i = (Inl e, j)"
  shows "i \<le> j"
  using assms
  by (auto simp: http_try_def timed_defs split: sum.splits option.splits prod.splits if_splits)

lemma ws_try_clock:
  assumes "ws_try env rid ts w t0 i = (Inl e, j)"
  shows "i \<le> j"
  using assms
  by (auto simp: ws_try_def raise_if_error_def timed_defs
      split: sum.splits option.splits prod.splits if_splits)

text \<open>The record of the handler, and when a session returns it.\<close>

lemma exn_name_nonempty: "exn_name e \<noteq> []"
  using Rep_class_name by (cases e) auto

lemma failed_result_fields:
  "\<not> success (failed_result rid m ts w latency e)"
  "error_type (failed_result rid m ts w latency e) = Some (exn_name e)"
  "error_message (failed_result rid m ts w latency e) = Some (exn_str e)"
  "total_latency (failed_result rid m ts w latency e) = latency"
  "waited_seconds (failed_result rid m ts w latency e) = 0"
  "pid (failed_result rid m ts w latency e) = 0"
  "session_hash (failed_result rid m ts w latency e) = []"
  "host_url (failed_result rid m ts w latency e) = []"
  by (simp_all add: failed_result_def new_SessionResult_def)

lemma http_session_failure:
  "\<exists>r. http_session env u rid w = Inr r
     \<and> (\<forall>e j. http_try env rid (http_now env) w (http_clock env 0) 1 = (Inl e, j) \<longrightarrow>
            1 \<le> j \<and> r = failed_result rid ''http'' (http_now env) w
                            (http_clock env j - http_clock env 0) e)
     \<and> (\<not> success r \<longrightarrow>
            (\<exists>e j. http_try env rid (http_now env) w (http_clock env 0) 1 = (Inl e, j)))"
proof (cases "http_try env rid (http_now env) w (http_clock env 0) 1")
  case (Pair outcome j)
  show ?thesis
  proof (cases outcome)
    case (Inl e)
    with Pair http_try_clock [of env rid "http_now env" w "http_clock env 0" 1 e j]
    show ?thesis
      by (simp add: http_session_eq)
  next
    case (Inr r)
    with Pair http_try_Inr(1) [of env rid "http_now env" w "http_clock env 0" 1 r j]
    show ?thesis
      by (simp add: http_session_eq)
  qed
qed

lemma ws_session_failure:
  "\<exists>r. ws_session True env u rid w timeout = Inr r
     \<and> (\<forall>e j. ws_try env rid (ws_now env) w (ws_clock env 0) 1 = (Inl e, j) \<longrightarrow>
            1 \<le> j \<and> r = failed_result rid ''ws'' (ws_now env) w
                            (ws_clock env j - ws_clock env 0) e)
     \<and> (\<not> success r \<longrightarrow>
            (\<exists>e j. ws_try env rid (ws_now env) w (ws_clock env 0) 1 = (Inl e, j)))"
proof (cases "ws_try env rid (ws_now env) w (ws_clock env 0) 1")
  case (Pair outcome j)
  show ?thesis
  proof (cases outcome)
    case (Inl e)
    with Pair ws_try_clock [of env rid "ws_now env" w "ws_clock env 0" 1 e j]
    show ?thesis
      by (simp add: ws_session_eq)
  next
    case (Inr r)
    with Pair ws_try_Inr [of env rid "ws_now env" w "ws_clock env 0" 1 r j]
    show ?thesis
      by (simp add: ws_session_eq)
  qed
qed

section \<open>The example worlds, evaluated\<close>

lemma example_exn_names:
  "exn_name read_timeout = ''ReadTimeout''" "exn_str read_timeout = []"
  "exn_name connect_timeout = ''TimeoutError''" "exn_str connect_timeout = []"
  "exn_name status_500 = ''HTTPStatusError''"
  "exn_str status_500 = ''Server error 500 Internal Server Error''"
  by (simp_all add: read_timeout_def connect_timeout_def status_500_def Abs_class_name_inverse)

lemma http_try_ok:
  "http_try http_ok rid ts w t0 1 =
     (Inr ((new_SessionResult rid ''http'' ts w)\<lparr>
             reset_latency := 1, step_latency := 1, total_latency := 5 - t0,
             waited_seconds := 1, pid := 7, session_hash := ''abc'',
             host_url := ''http://localhost:8000''\<rparr>), 6)"
  by (simp add: http_try_def http_ok_def example_response_def example_observation_def
      timed_defs get_or_def new_SessionResult_def)

lemma http_try_timeout:
  "http_try http_timeout rid ts w t0 1 = (Inl read_timeout, 4)"
  by (simp add: http_try_def http_timeout_def example_response_def timed_defs)

lemma http_session_ok:
  "http_session http_ok u rid w =
     Inr ((new_SessionResult rid ''http'' ''2025-01-01T00:00:00Z'' w)\<lparr>
            reset_latency := 1, step_latency := 1, total_latency := 5,
            waited_seconds := 1, pid := 7, session_hash := ''abc'',
            host_url := ''http://localhost:8000''\<rparr>)"
  unfolding http_session_eq http_try_ok by (simp add: http_ok_def)

lemma http_session_timeout:
  "http_session http_timeout u rid w =
     Inr ((new_SessionResult rid ''http'' ''2025-01-01T00:00:00Z'' w)\<lparr>
            total_latency := 4, success := False,
            error_type := Some ''ReadTimeout'', error_message := Some []\<rparr>)"
  unfolding http_session_eq http_try_timeout
  by (simp add: http_timeout_def failed_result_def example_exn_names)

lemma ws_try_ok:
  "ws_try ws_ok rid ts w t0 1 =
     (Inr ((new_SessionResult rid ''ws'' ts w)\<lparr>
             connect_latency := 1, reset_latency := 1, step_latency := 1,
             total_latency := 7 - t0,
             waited_seconds := 1, pid := 7, session_hash := ''abc'',
             host_url := ''http://localhost:8000''\<rparr>), 8)"
  by (simp add: ws_try_def raise_if_error_def ws_ok_def example_message_def
      example_observation_def timed_defs get_or_def new_SessionResult_def)

lemma ws_try_timeout:
  "ws_try ws_timeout rid ts w t0 1 = (Inl connect_timeout, 2)"
  by (simp add: ws_try_def ws_timeout_def ws_ok_def timed_defs)

lemma ws_session_ok:
  "ws_session True ws_ok u rid w timeout =
     Inr ((new_SessionResult rid ''ws'' ''2025-01-01T00:00:00Z'' w)\<lparr>
            connect_latency := 1, reset_latency := 1, step_latency := 1, total_latency := 7,
            waited_seconds := 1, pid := 7, session_hash := ''abc'',
            host_url := ''http://localhost:8000''\<rparr>)"
  unfolding ws_session_eq ws_try_ok by (simp add: ws_ok_def)

lemma ws_session_timeout:
  "ws_session True ws_timeout u rid w timeout =
     Inr ((new_SessionResult rid ''ws'' ''2025-01-01T00:00:00Z'' w)\<lparr>
            total_latency := 2, success := False,
            error_type := Some ''TimeoutError'', error_message := Some []\<rparr>)"
  unfolding ws_session_eq ws_try_timeout
  by (simp add: ws_timeout_def ws_ok_def failed_result_def example_exn_names)

lemma py_range_2: "py_range 2 = [0, 1]"
  by (simp add: py_range_def upto.simps)

text \<open>A batch of two HTTP sessions, the second of which times out.\<close>

lemma example_http_batch:
  "run_http_test (http_envs example_batch) ''http://localhost:8000'' 2 1 120 ''t4-small''
     = Inr example_http_results"
  by (simp add: run_http_test_eq py_range_2 example_batch_def http_session_ok
      http_session_timeout stamp_def new_SessionResult_def example_http_results_def)

lemma example_ws_batch:
  "run_ws_test True (ws_envs example_batch) ''http://localhost:8000'' 2 1 120 ''t4-small''
     = Inr example_ws_results"
  by (simp add: run_ws_test_eq py_range_2 example_batch_def ws_session_ok
      ws_session_timeout stamp_def new_SessionResult_def example_ws_results_def)

lemma example_failed_batch:
  "run_http_test (\<lambda>i. http_timeout) ''http://localhost:8000'' 2 1 120 ''t4-small''
     = Inr example_failed_results"
  by (simp add: run_http_test_eq py_range_2 http_session_timeout stamp_def
      new_SessionResult_def example_failed_results_def)

text \<open>The summaries of these batches, with a wall time of two seconds.\<close>

lemma percentile_spec_single: "percentile_spec [x] p = x"
  by (simp add: percentile_spec_def)

lemma example_http_summary:
  "compute_summary ''now'' example_http_results ''http'' ''http://localhost:8000'' 2 1 1 2
       ''t4-small''
     = Inr ((new_RunSummary ''http'' ''http://localhost:8000'' 2)\<lparr>
         summary_batch_size := 2, wait_seconds := 1, repetition := 1,
         summary_timestamp := ''now'', summary_hardware := ''t4-small'',
         successful := 1, failed := 1, error_rate := 1 / 2, total_wall_time := 2,
         reset_p50 := 1, reset_p95 := 1, reset_p99 := 1,
         step_p50 := 1, step_p95 := 1, step_p99 := 1,
         total_min := 5, total_max := 5, total_avg := 5,
         total_p50 := 5, total_p90 := 5, total_p95 := 5, total_p99 := 5,
         requests_per_second := 1 / 2, effective_concurrency := 1,
         unique_pids := 1, unique_sessions := 1, unique_hosts := 1\<rparr>)"
proof -
  have ok: "filter success example_http_results \<noteq> []"
    by (simp add: example_http_results_def new_SessionResult_def)
  show ?thesis
    unfolding compute_summary_some_success [OF ok]
    by (simp add: example_http_results_def new_SessionResult_def new_RunSummary_def
        percentile_spec_single percentile_spec_Nil len_def)
qed

lemma example_ws_summary:
  "compute_summary ''now'' example_ws_results ''ws'' ''http://localhost:8000'' 2 1 1 2
       ''t4-small''
     = Inr ((new_RunSummary ''ws'' ''http://localhost:8000'' 2)\<lparr>
         summary_batch_size := 2, wait_seconds := 1, repetition := 1,
         summary_timestamp := ''now'', summary_hardware := ''t4-small'',
         successful := 1, failed := 1, error_rate := 1 / 2, total_wall_time := 2,
         connect_p50 := 1, connect_p95 := 1, connect_p99 := 1,
         reset_p50 := 1, reset_p95 := 1, reset_p99 := 1,
         step_p50 := 1, step_p95 := 1, step_p99 := 1,
         total_min := 7, total_max := 7, total_avg := 7,
         total_p50 := 7, total_p90 := 7, total_p95 := 7, total_p99 := 7,
         requests_per_second := 1 / 2, effective_concurrency := 1,
         unique_pids := 1, unique_sessions := 1, unique_hosts := 1\<rparr>)"
proof -
  have ok: "filter success example_ws_results \<noteq> []"
    by (simp add: example_ws_results_def new_SessionResult_def)
  show ?thesis
    unfolding compute_summary_some_success [OF ok]
    by (simp add: example_ws_results_def new_SessionResult_def new_RunSummary_def
        percentile_spec_single percentile_spec_Nil len_def)
qed

lemma example_failed_summary:
  "compute_summary ''now'' example_failed_results ''http'' ''http://localhost:8000'' 2 1 1 2
       ''t4-small''
     = Inr ((new_RunSummary ''http'' ''http://localhost:8000'' 2)\<lparr>
         summary_batch_size := 2, wait_seconds := 1, repetition := 1,
         summary_timestamp := ''now'', summary_hardware := ''t4-small'',
         successful := 0, failed := 2, error_rate := 1, total_wall_time := 2\<rparr>)"
proof -
  have none: "filter success example_failed_results = []"
    by (simp add: example_failed_results_def new_SessionResult_def)
  show ?thesis
    unfolding compute_summary_all_failed [OF none]
    by (simp add: example_failed_results_def new_SessionResult_def new_RunSummary_def len_def)
qed

section \<open>Claims about the percentile function\<close>

text \<open>
  C1: for every list of samples and every \<open>p\<close> in \<open>[0, 100]\<close>, \<open>percentile\<close> returns
  what the policy of the specification describes (sort ascending, rank
  \<open>k = (n - 1) * p / 100\<close>, \<open>f = floor k\<close>, \<open>c = min (f + 1) (n - 1)\<close>, result
  \<open>sample[f] + (k - f) * (sample[c] - sample[f])\<close>); for a non-empty list the percentile 0
  is the minimum and the percentile 100 the maximum; the percentile 50 of \<open>[1,2,3,4,5]\<close> is
  3; and the percentile of the empty list is 0 for every \<open>p\<close>.
\<close>

theorem C1_percentile_interpolation:
  "(0 \<le> p \<and> p \<le> 100 \<longrightarrow> percentile data p = Inr (percentile_spec data p))
   \<and> (data \<noteq> [] \<longrightarrow>
        percentile data 0 = Inr (Min (set data)) \<and> percentile data 100 = Inr (Max (set data)))
   \<and> percentile [1, 2, 3, 4, 5] 50 = Inr 3
   \<and> percentile [] q = Inr 0"
proof (intro conjI impI)
  assume "0 \<le> p \<and> p \<le> 100"
  then show "percentile data p = Inr (percentile_spec data p)"
    by (simp add: percentile_spec_eq)
next
  assume "data \<noteq> []"
  then show "percentile data 0 = Inr (Min (set data))"
    by (rule percentile_0)
next
  assume "data \<noteq> []"
  then show "percentile data 100 = Inr (Max (set data))"
    by (rule percentile_100)
next
  have "percentile [1, 2, 3, 4, 5] 50 = Inr (percentile_spec [1, 2, 3, 4, 5] 50)"
    by (rule percentile_spec_eq) simp_all
  also have "percentile_spec [1, 2, 3, 4, 5] 50 = 3"
    by (simp add: percentile_spec_def)
  finally show "percentile [1, 2, 3, 4, 5] 50 = Inr 3" .
next
  show "percentile [] q = Inr 0"
    by (simp add: percentile_def)
qed

theorem C1_percentile_interpolation_witness:
  "(0::real) \<le> 95 \<and> (95::real) \<le> 100 \<and> [5, 3, 1, 2, 4::real] \<noteq> []
   \<and> percentile [5, 3, 1, 2, 4] 95 = Inr (24 / 5)
   \<and> percentile [5, 3, 1, 2, 4] 0 = Inr 1
   \<and> percentile [5, 3, 1, 2, 4] 100 = Inr 5"
  using C1_percentile_interpolation [of 95 "[5, 3, 1, 2, 4]" 0]
  by (simp add: percentile_spec_def)

text \<open>
  C10: when the list is not empty and \<open>0 \<le> p \<le> 100\<close>, both indices \<open>f\<close> and
  \<open>c\<close> lie within the sorted list, so \<open>percentile\<close> returns a value, and that value
  lies between the minimum and the maximum of the data; the bound on \<open>p\<close> is needed: at
  \<open>p = 200\<close> on a list of two samples the index \<open>f\<close> is 2 and the lookup raises
  IndexError.
\<close>

theorem C10_percentile_in_bounds:
  "(data \<noteq> [] \<and> 0 \<le> p \<and> p \<le> 100 \<longrightarrow>
      0 \<le> percentile_f (sort data) p \<and> percentile_f (sort data) p < int (length (sort data))
      \<and> 0 \<le> percentile_c (sort data) p \<and> percentile_c (sort data) p < int (length (sort data))
      \<and> (\<exists>v. percentile data p = Inr v \<and> Min (set data) \<le> v \<and> v \<le> Max (set data)))
   \<and> (100 < (200::real) \<and> int (length (sort [1, 2::real])) \<le> percentile_f (sort [1, 2]) 200
        \<and> percentile [1, 2] 200 = Inl IndexError)"
proof (intro conjI impI)
  assume a: "data \<noteq> [] \<and> 0 \<le> p \<and> p \<le> 100"
  then have ne: "sort data \<noteq> []" and p: "0 \<le> p" "p \<le> 100"
    by (simp_all add: sort_eq_Nil)
  show "0 \<le> percentile_f (sort data) p"
    by (rule percentile_f_bounds(1) [OF ne p])
  show "percentile_f (sort data) p < int (length (sort data))"
    by (rule percentile_f_bounds(2) [OF ne p])
  show "0 \<le> percentile_c (sort data) p"
    by (rule percentile_c_bounds(1) [OF ne p])
  show "percentile_c (sort data) p < int (length (sort data))"
    by (rule percentile_c_bounds(2) [OF ne p])
  from a have "data \<noteq> []" by simp
  from percentile_Min_Max [OF this p]
  show "\<exists>v. percentile data p = Inr v \<and> Min (set data) \<le> v \<and> v \<le> Max (set data)"
    by blast
next
  show "100 < (200::real)" by simp
  show "int (length (sort [1, 2::real])) \<le> percentile_f (sort [1, 2]) 200"
    by (simp add: percentile_f_def percentile_k_def py_int_def)
  show "percentile [1, 2] 200 = Inl IndexError"
    by (simp add: percentile_def percentile_k_def percentile_f_def percentile_c_def
        py_int_def getitem_def)
qed

theorem C10_percentile_in_bounds_witness:
  "[3, 1, 2::real] \<noteq> [] \<and> (0::real) \<le> 75 \<and> (75::real) \<le> 100
   \<and> percentile_f (sort [3, 1, 2]) 75 = 1 \<and> percentile_c (sort [3, 1, 2]) 75 = 2
   \<and> percentile [3, 1, 2] 75 = Inr (5 / 2)
   \<and> (\<exists>v. percentile [3, 1, 2] 75 = Inr v \<and> 1 \<le> v \<and> v \<le> 3)"
proof -
  have f: "percentile_f (sort [3, 1, 2]) 75 = 1"
    by (simp add: percentile_f_def percentile_k_def py_int_def)
  have c: "percentile_c (sort [3, 1, 2]) 75 = 2"
    using f by (simp add: percentile_c_def)
  have v: "percentile [3, 1, 2] 75 = Inr (5 / 2)"
    using f c by (simp add: percentile_def percentile_k_def getitem_def)
  from C10_percentile_in_bounds [of "[3, 1, 2]" 75] f c v show ?thesis
    by simp
qed

section \<open>Claims about the summary of a batch\<close>

text \<open>
  C2: for every list of session records, \<open>compute_summary\<close> returns a summary with
  \<open>successful + failed = len(records)\<close>, with \<open>error_rate = failed / (successful + failed)\<close>
  when the list is not empty and 0 when it is, and with \<open>error_rate\<close> in \<open>[0, 1]\<close>; when
  the records are what a batch runner returned for \<open>N \<ge> 1\<close> requests, then
  \<open>successful + failed = N\<close>.
\<close>

theorem C2_count_and_error_rate:
  "\<exists>s. compute_summary now results m u n w rep wall hw = Inr s
     \<and> successful s + failed s = len results
     \<and> error_rate s = (if results = [] then 0
          else real_of_int (failed s) / real_of_int (successful s + failed s))
     \<and> 0 \<le> error_rate s \<and> error_rate s \<le> 1
     \<and> (1 \<le> n \<and> (run_http_test henvs u n w timeout hw = Inr results
                    \<or> run_ws_test websockets wenvs u n w timeout hw = Inr results)
          \<longrightarrow> successful s + failed s = n)"
proof -
  have batch: "len results = n"
    if "1 \<le> n \<and> (run_http_test henvs u n w timeout hw = Inr results
                    \<or> run_ws_test websockets wenvs u n w timeout hw = Inr results)"
    using that run_http_test_length [of henvs u n w timeout hw results]
      run_ws_test_length [of websockets wenvs u n w timeout hw results] by auto
  show ?thesis
  proof (cases "filter success results = []")
    case True
    then have part: "filter (\<lambda>r. \<not> success r) results = results"
      by (simp add: filter_empty_conv filter_id_conv)
    show ?thesis
      unfolding compute_summary_all_failed [OF True] part
      using batch by (simp add: new_RunSummary_def len_def)
  next
    case False
    then have ne: "results \<noteq> []" by auto
    have part:
      "len (filter success results) + len (filter (\<lambda>r. \<not> success r) results) = len results"
      by (rule len_filter_partition)
    have le: "len (filter (\<lambda>r. \<not> success r) results) \<le> len results"
      by (simp add: len_def)
    have pos: "0 < len results" using ne by (simp add: len_def)
    show ?thesis
      unfolding compute_summary_some_success [OF False]
      using ne part le pos batch by (simp add: len_def)
  qed
qed

theorem C2_count_and_error_rate_witness:
  "(1::int) \<le> 2
   \<and> run_http_test (http_envs example_batch) ''http://localhost:8000'' 2 1 120 ''t4-small''
       = Inr example_http_results
   \<and> (\<exists>s. compute_summary ''now'' example_http_results ''http'' ''http://localhost:8000'' 2 1 1 2
             ''t4-small'' = Inr s
          \<and> successful s = 1 \<and> failed s = 1 \<and> successful s + failed s = 2
          \<and> error_rate s = 1 / 2)"
  using C2_count_and_error_rate [of "''now''" example_http_results "''http''"
      "''http://localhost:8000''" 2 1 1 2 "''t4-small''" "http_envs example_batch" 120]
    example_http_batch example_http_summary
  by (simp add: new_RunSummary_def)

text \<open>
  C3: for the connect, reset and step phases, the p50/p95/p99 fields of the summary are
  the percentiles of the latencies of that phase over the successful records whose
  latency is strictly positive; so when no record has a positive connect latency, and in
  particular for every batch that \<open>run_http_test\<close> returned, the three connect
  percentiles are 0.
\<close>

theorem C3_phase_percentiles:
  "\<exists>s. compute_summary now results m u n w rep wall hw = Inr s
     \<and> percentile (map connect_latency
          (filter (\<lambda>r. success r \<and> 0 < connect_latency r) results)) 50 = Inr (connect_p50 s)
     \<and> percentile (map connect_latency
          (filter (\<lambda>r. success r \<and> 0 < connect_latency r) results)) 95 = Inr (connect_p95 s)
     \<and> percentile (map connect_latency
          (filter (\<lambda>r. success r \<and> 0 < connect_latency r) results)) 99 = Inr (connect_p99 s)
     \<and> percentile (map reset_latency
          (filter (\<lambda>r. success r \<and> 0 < reset_latency r) results)) 50 = Inr (reset_p50 s)
     \<and> percentile (map reset_latency
          (filter (\<lambda>r. success r \<and> 0 < reset_latency r) results)) 95 = Inr (reset_p95 s)
     \<and> percentile (map reset_latency
          (filter (\<lambda>r. success r \<and> 0 < reset_latency r) results)) 99 = Inr (reset_p99 s)
     \<and> percentile (map step_latency
          (filter (\<lambda>r. success r \<and> 0 < step_latency r) results)) 50 = Inr (step_p50 s)
     \<and> percentile (map step_latency
          (filter (\<lambda>r. success r \<and> 0 < step_latency r) results)) 95 = Inr (step_p95 s)
     \<and> percentile (map step_latency
          (filter (\<lambda>r. success r \<and> 0 < step_latency r) results)) 99 = Inr (step_p99 s)
     \<and> ((\<forall>r \<in> set results. connect_latency r = 0) \<longrightarrow>
          connect_p50 s = 0 \<and> connect_p95 s = 0 \<and> connect_p99 s = 0)
     \<and> (run_http_test henvs u n w timeout hw = Inr results \<longrightarrow>
          connect_p50 s = 0 \<and> connect_p95 s = 0 \<and> connect_p99 s = 0)"
proof -
  have http: "\<forall>r \<in> set results. connect_latency r = 0"
    if "run_http_test henvs u n w timeout hw = Inr results"
    using run_http_test_connect_latency [OF that] by blast
  have none: "filter (\<lambda>r. 0 < connect_latency r) (filter success results) = []"
    if "\<forall>r \<in> set results. connect_latency r = 0"
    using that by (simp add: filter_empty_conv)
  show ?thesis
  proof (cases "filter success results = []")
    case True
    then have "\<And>P. filter (\<lambda>r. success r \<and> P r) results = []"
      by (auto simp: filter_empty_conv)
    then show ?thesis
      by (simp add: compute_summary_all_failed [OF True] new_RunSummary_def percentile_def)
  next
    case False
    have both: "\<And>P. filter (\<lambda>r. success r \<and> P r) results = filter P (filter success results)"
      by (simp add: conj_commute)
    show ?thesis
      unfolding compute_summary_some_success [OF False] both
      using http none by (auto simp: percentile_fixed percentile_spec_Nil)
  qed
qed

theorem C3_phase_percentiles_witness:
  "run_http_test (http_envs example_batch) ''http://localhost:8000'' 2 1 120 ''t4-small''
       = Inr example_http_results
   \<and> list_all (\<lambda>r. connect_latency r = 0) example_http_results
   \<and> (\<exists>s. compute_summary ''now'' example_http_results ''http'' ''http://localhost:8000'' 2 1 1 2
             ''t4-small'' = Inr s
          \<and> connect_p50 s = 0 \<and> connect_p95 s = 0 \<and> connect_p99 s = 0
          \<and> reset_p50 s = 1 \<and> step_p99 s = 1)
   \<and> (\<exists>s. compute_summary ''now'' example_ws_results ''ws'' ''http://localhost:8000'' 2 1 1 2
             ''t4-small'' = Inr s
          \<and> percentile [1] 50 = Inr (connect_p50 s) \<and> connect_p50 s = 1)"
  using C3_phase_percentiles [of "''now''" example_http_results "''http''"
      "''http://localhost:8000''" 2 1 1 2 "''t4-small''" "http_envs example_batch" 120]
    C3_phase_percentiles [of "''now''" example_ws_results "''ws''"
      "''http://localhost:8000''" 2 1 1 2 "''t4-small''" "http_envs example_batch" 120]
    example_http_batch example_http_summary example_ws_summary
  by (simp add: new_RunSummary_def example_ws_results_def example_http_results_def
      new_SessionResult_def)

text \<open>
  C5: when no record of the batch is successful (the list may be empty),
  \<open>compute_summary\<close> returns a summary (it raises nothing, in particular no
  ZeroDivisionError) whose latency statistics, throughput fields and distribution counts
  are all 0.
\<close>

theorem C5_all_failed_summary:
  "filter success results = [] \<longrightarrow>
   (\<exists>s. compute_summary now results m u n w rep wall hw = Inr s
     \<and> successful s = 0 \<and> failed s = len results
     \<and> connect_p50 s = 0 \<and> connect_p95 s = 0 \<and> connect_p99 s = 0
     \<and> reset_p50 s = 0 \<and> reset_p95 s = 0 \<and> reset_p99 s = 0
     \<and> step_p50 s = 0 \<and> step_p95 s = 0 \<and> step_p99 s = 0
     \<and> total_min s = 0 \<and> total_max s = 0 \<and> total_avg s = 0
     \<and> total_p50 s = 0 \<and> total_p90 s = 0 \<and> total_p95 s = 0 \<and> total_p99 s = 0
     \<and> requests_per_second s = 0 \<and> effective_concurrency s = 0
     \<and> unique_pids s = 0 \<and> unique_sessions s = 0 \<and> unique_hosts s = 0)"
proof
  assume none: "filter success results = []"
  then have part: "filter (\<lambda>r. \<not> success r) results = results"
    by (simp add: filter_empty_conv filter_id_conv)
  show "\<exists>s. compute_summary now results m u n w rep wall hw = Inr s
     \<and> successful s = 0 \<and> failed s = len results
     \<and> connect_p50 s = 0 \<and> connect_p95 s = 0 \<and> connect_p99 s = 0
     \<and> reset_p50 s = 0 \<and> reset_p95 s = 0 \<and> reset_p99 s = 0
     \<and> step_p50 s = 0 \<and> step_p95 s = 0 \<and> step_p99 s = 0
     \<and> total_min s = 0 \<and> total_max s = 0 \<and> total_avg s = 0
     \<and> total_p50 s = 0 \<and> total_p90 s = 0 \<and> total_p95 s = 0 \<and> total_p99 s = 0
     \<and> requests_per_second s = 0 \<and> effective_concurrency s = 0
     \<and> unique_pids s = 0 \<and> unique_sessions s = 0 \<and> unique_hosts s = 0"
    unfolding compute_summary_all_failed [OF none] part
    by (simp add: new_RunSummary_def)
qed

theorem C5_all_failed_summary_witness:
  "filter success example_failed_results = [] \<and> filter success ([] :: SessionResult list) = []
   \<and> (\<exists>s. compute_summary ''now'' example_failed_results ''http'' ''http://localhost:8000''
             2 1 1 2 ''t4-small'' = Inr s
          \<and> failed s = 2 \<and> error_rate s = 1 \<and> total_avg s = 0 \<and> requests_per_second s = 0
          \<and> effective_concurrency s = 0 \<and> unique_pids s = 0)
   \<and> (\<exists>s. compute_summary ''now'' [] ''http'' ''http://localhost:8000'' 2 1 1 2 ''t4-small''
             = Inr s
          \<and> failed s = 0 \<and> error_rate s = 0 \<and> total_p99 s = 0)"
  using C5_all_failed_summary [of example_failed_results "''now''" "''http''"
      "''http://localhost:8000''" 2 1 1 2 "''t4-small''"]
    C5_all_failed_summary [of "[]" "''now''" "''http''"
      "''http://localhost:8000''" 2 1 1 2 "''t4-small''"]
    example_failed_summary
  by (simp add: new_RunSummary_def example_failed_results_def new_SessionResult_def
      compute_summary_all_failed len_def)

text \<open>
  C7, as the claim states it, fails: for a batch of two requests that both failed, with a
  wait of one second and a wall time of two seconds, the summary has
  \<open>effective_concurrency = 0\<close>, and \<open>(2 * 1) / 2 = 1\<close>.
\<close>

theorem C7_throughput_counterexample:
  "map_sum id effective_concurrency
     (compute_summary ''now'' example_failed_results ''http'' ''http://localhost:8000'' 2 1 1 2
        ''t4-small'') = Inr 0
   \<and> (real_of_int 2 * 1) / 2 \<noteq> (0::real)"
  by (simp add: example_failed_summary new_RunSummary_def)

text \<open>
  C7, amended: for every batch with at least one successful record and a positive wall
  time, the summary has \<open>requests_per_second = successful / total_wall_time\<close> and
  \<open>effective_concurrency = (num_requests * wait_seconds) / total_wall_time\<close>, where
  \<open>num_requests\<close> is the requested batch size; when no record is successful, or the wall
  time is not positive, both fields are 0.
\<close>

theorem C7_throughput:
  "(filter success results \<noteq> [] \<and> 0 < wall \<longrightarrow>
     (\<exists>s. compute_summary now results m u n w rep wall hw = Inr s
        \<and> requests_per_second s = real_of_int (successful s) / total_wall_time s
        \<and> effective_concurrency s
            = (real_of_int (num_requests s) * wait_seconds s) / total_wall_time s
        \<and> num_requests s = n \<and> wait_seconds s = w \<and> total_wall_time s = wall
        \<and> successful s = len (filter success results)))
   \<and> (filter success results = [] \<or> wall \<le> 0 \<longrightarrow>
     (\<exists>s. compute_summary now results m u n w rep wall hw = Inr s
        \<and> requests_per_second s = 0 \<and> effective_concurrency s = 0))"
proof (cases "filter success results = []")
  case True
  then show ?thesis
    by (simp add: compute_summary_all_failed new_RunSummary_def)
next
  case False
  show ?thesis
    using False unfolding compute_summary_some_success [OF False]
    by auto
qed

theorem C7_throughput_witness:
  "filter success example_http_results \<noteq> [] \<and> (0::real) < 2
   \<and> (\<exists>s. compute_summary ''now'' example_http_results ''http'' ''http://localhost:8000'' 2 1 1 2
             ''t4-small'' = Inr s
          \<and> requests_per_second s = 1 / 2 \<and> effective_concurrency s = 1)
   \<and> filter success example_failed_results = []
   \<and> (\<exists>s. compute_summary ''now'' example_failed_results ''http'' ''http://localhost:8000''
             2 1 1 2 ''t4-small'' = Inr s
          \<and> requests_per_second s = 0 \<and> effective_concurrency s = 0)"
  using C7_throughput [of example_http_results 2 "''now''" "''http''"
      "''http://localhost:8000''" 2 1 1 "''t4-small''"]
    C7_throughput [of example_failed_results 2 "''now''" "''http''"
      "''http://localhost:8000''" 2 1 1 "''t4-small''"]
    example_http_summary example_failed_summary
  by (simp add: new_RunSummary_def example_http_results_def example_failed_results_def
      new_SessionResult_def)

text \<open>
  C8: \<open>percentile\<close> is monotone in \<open>p\<close> on every list: for \<open>0 \<le> p1 \<le> p2 \<le> 100\<close> it
  returns values \<open>v1 \<le> v2\<close>; and in every summary the percentile fields of a group are
  in order: \<open>connect_p50 \<le> connect_p95 \<le> connect_p99\<close>, the same for reset and step, and
  \<open>total_p50 \<le> total_p90 \<le> total_p95 \<le> total_p99\<close>.
\<close>

theorem C8_percentiles_monotone:
  "(0 \<le> p1 \<and> p1 \<le> p2 \<and> p2 \<le> 100 \<longrightarrow>
      (\<exists>v1 v2. percentile data p1 = Inr v1 \<and> percentile data p2 = Inr v2 \<and> v1 \<le> v2))
   \<and> (\<exists>s. compute_summary now results m u n w rep wall hw = Inr s
        \<and> connect_p50 s \<le> connect_p95 s \<and> connect_p95 s \<le> connect_p99 s
        \<and> reset_p50 s \<le> reset_p95 s \<and> reset_p95 s \<le> reset_p99 s
        \<and> step_p50 s \<le> step_p95 s \<and> step_p95 s \<le> step_p99 s
        \<and> total_p50 s \<le> total_p90 s \<and> total_p90 s \<le> total_p95 s
        \<and> total_p95 s \<le> total_p99 s)"
proof (intro conjI impI)
  assume "0 \<le> p1 \<and> p1 \<le> p2 \<and> p2 \<le> 100"
  then show "\<exists>v1 v2. percentile data p1 = Inr v1 \<and> percentile data p2 = Inr v2 \<and> v1 \<le> v2"
    by (intro percentile_mono_ex) simp_all
next
  show "\<exists>s. compute_summary now results m u n w rep wall hw = Inr s
        \<and> connect_p50 s \<le> connect_p95 s \<and> connect_p95 s \<le> connect_p99 s
        \<and> reset_p50 s \<le> reset_p95 s \<and> reset_p95 s \<le> reset_p99 s
        \<and> step_p50 s \<le> step_p95 s \<and> step_p95 s \<le> step_p99 s
        \<and> total_p50 s \<le> total_p90 s \<and> total_p90 s \<le> total_p95 s
        \<and> total_p95 s \<le> total_p99 s"
  proof (cases "filter success results = []")
    case True
    then show ?thesis
      by (simp add: compute_summary_all_failed new_RunSummary_def)
  next
    case False
    show ?thesis
      unfolding compute_summary_some_success [OF False]
      by (simp add: percentile_spec_mono)
  qed
qed

theorem C8_percentiles_monotone_witness:
  "(0::real) \<le> 50 \<and> (50::real) \<le> 95 \<and> (95::real) \<le> 100
   \<and> percentile [3, 1, 2] 50 = Inr 2 \<and> percentile [3, 1, 2] 95 = Inr (29 / 10)
   \<and> (\<exists>v1 v2. percentile [3, 1, 2] 50 = Inr v1 \<and> percentile [3, 1, 2] 95 = Inr v2 \<and> v1 \<le> v2)
   \<and> (\<exists>s. compute_summary ''now'' example_ws_results ''ws'' ''http://localhost:8000'' 2 1 1 2
             ''t4-small'' = Inr s
          \<and> connect_p50 s \<le> connect_p95 s \<and> connect_p95 s \<le> connect_p99 s
          \<and> total_p50 s \<le> total_p90 s \<and> total_p99 s = 7)"
proof -
  have a: "percentile [3, 1, 2] 50 = Inr 2"
    by (simp add: percentile_spec_eq percentile_spec_def)
  have b: "percentile [3, 1, 2] 95 = Inr (29 / 10)"
    by (simp add: percentile_spec_eq percentile_spec_def)
  from C8_percentiles_monotone [of 50 95 "[3, 1, 2]" "''now''" example_ws_results "''ws''"
      "''http://localhost:8000''" 2 1 1 2 "''t4-small''"] a b example_ws_summary
  show ?thesis
    by (simp add: new_RunSummary_def)
qed

section \<open>Claims about the session driver and the batch runner\<close>

text \<open>
  C4, as the claim states it, fails: the record of an HTTP session whose step request
  timed out has the empty string as its error message, and so has the record of a
  WebSocket session whose connection attempt timed out; and where the \<^verbatim>\<open>websockets\<close>
  package is not installed, \<open>ws_session\<close> raises ImportError instead of returning a
  record.
\<close>

theorem C4_session_counterexample:
  "map_sum id error_message (http_session http_timeout ''http://localhost:8000'' 0 1)
     = Inr (Some [])
   \<and> map_sum id error_message (ws_session True ws_timeout ''ws://localhost:8000/ws'' 0 1 60)
     = Inr (Some [])
   \<and> ws_session False ws_ok ''ws://localhost:8000/ws'' 0 1 60
     = Inl (ImportError ''websockets not installed: pip install websockets'')"
  apply (intro conjI)
  subgoal by (simp add: http_session_timeout new_SessionResult_def)
  subgoal by (simp add: ws_session_timeout new_SessionResult_def)
  subgoal by (simp add: ws_session_def)
  done

text \<open>
  C4, amended.  The statement is about exceptions that are instances of \<^verbatim>\<open>Exception\<close>
  (what the handlers catch; an interruption or cancellation of the session is not one and
  is not covered), and for \<open>ws_session\<close> it needs the \<^verbatim>\<open>websockets\<close> package to be
  installed (where it is not, \<open>ws_session\<close> raises ImportError before the session
  starts).  Then:
  \<^item> the record \<open>failed_result\<close> that the handler builds for an exception \<open>e\<close> has
    \<open>success = False\<close>, \<open>error_type\<close> the class name of \<open>e\<close>, which is not empty,
    \<open>error_message = str(e)\<close> (which may be empty, see the counterexample), the given
    \<open>total_latency\<close>, and \<open>waited_seconds\<close>, \<open>pid\<close>, \<open>session_hash\<close>, \<open>host_url\<close> at
    their defaults;
  \<^item> \<open>http_session\<close> and \<open>ws_session\<close> always return a record; when the body of the
    \<^verbatim>\<open>try\<close> raises \<open>e\<close> after \<open>j\<close> clock readings, it is the handler's record for
    \<open>e\<close> with \<open>total_latency\<close> the next clock reading (the one of the handler, number
    \<open>j \<ge> 1\<close>) minus the reading at the start of the session; and a record with
    \<open>success = False\<close> is returned in no other case;
  \<^item> every kind of failure gives that record: for HTTP an exception of the reset or step
    request, a status for which \<^verbatim>\<open>raise_for_status\<close> raises, and a body from which
    the observation cannot be read; for WebSocket an exception of connecting, sending or
    receiving, a reply whose type cannot be read, a reply of type \<^verbatim>\<open>error\<close>
    (a RuntimeError with the text \<^verbatim>\<open>Reset error: ...\<close> or \<^verbatim>\<open>Step error: ...\<close>), an
    exception of the close message or of leaving the connection (which replaces an
    exception raised inside the \<^verbatim>\<open>async with\<close> block), and a step reply from which the
    observation cannot be read; each with the clock reading at which the handler runs.
    When nothing fails, the record has \<open>success = True\<close> and no error type or message.
\<close>

theorem C4_session_failure_record:
  "(\<not> success (failed_result rid m ts w latency exn)
      \<and> error_type (failed_result rid m ts w latency exn) = Some (exn_name exn)
      \<and> exn_name exn \<noteq> []
      \<and> error_message (failed_result rid m ts w latency exn) = Some (exn_str exn)
      \<and> total_latency (failed_result rid m ts w latency exn) = latency
      \<and> waited_seconds (failed_result rid m ts w latency exn) = 0
      \<and> pid (failed_result rid m ts w latency exn) = 0
      \<and> session_hash (failed_result rid m ts w latency exn) = []
      \<and> host_url (failed_result rid m ts w latency exn) = [])
   \<and> (\<exists>r. http_session henv u rid w = Inr r
        \<and> (\<forall>e j. http_try henv rid (http_now henv) w (http_clock henv 0) 1 = (Inl e, j) \<longrightarrow>
              1 \<le> j \<and> r = failed_result rid ''http'' (http_now henv) w
                              (http_clock henv j - http_clock henv 0) e)
        \<and> (\<not> success r \<longrightarrow>
              (\<exists>e j. http_try henv rid (http_now henv) w (http_clock henv 0) 1 = (Inl e, j))))
   \<and> ((\<forall>e. reset_post henv = Inl e \<longrightarrow>
         http_session henv u rid w
           = Inr (failed_result rid ''http'' (http_now henv) w
           (http_clock henv 2 - http_clock henv 0) e))
      \<and> (\<forall>resp. reset_post henv = Inr resp \<longrightarrow>
           (\<forall>e. raise_for_status resp = Some e \<longrightarrow>
              http_session henv u rid w
                = Inr (failed_result rid ''http'' (http_now henv) w
                (http_clock henv 2 - http_clock henv 0) e))
           \<and> (raise_for_status resp = None \<longrightarrow>
                (\<forall>e. step_post henv = Inl e \<longrightarrow>
                   http_session henv u rid w
                     = Inr (failed_result rid ''http'' (http_now henv) w
                     (http_clock henv 4 - http_clock henv 0) e))
                \<and> (\<forall>sresp. step_post henv = Inr sresp \<longrightarrow>
                     (\<forall>e. raise_for_status sresp = Some e \<longrightarrow>
                        http_session henv u rid w
                          = Inr (failed_result rid ''http'' (http_now henv) w
                          (http_clock henv 4 - http_clock henv 0) e))
                     \<and> (raise_for_status sresp = None \<longrightarrow>
                          (\<forall>e. json_observation sresp = Inl e \<longrightarrow>
                             http_session henv u rid w
                               = Inr (failed_result rid ''http'' (http_now henv) w
                                   (http_clock henv 6 - http_clock henv 0) e))
                          \<and> (\<forall>obs. json_observation sresp = Inr obs \<longrightarrow>
                               (\<exists>r. http_session henv u rid w = Inr r \<and> success r
                                  \<and> error_type r = None \<and> error_message r = None)))))))
   \<and> (websockets \<longrightarrow>
        (\<exists>r. ws_session websockets wenv ws_url rid w timeout = Inr r
          \<and> (\<forall>e j. ws_try wenv rid (ws_now wenv) w (ws_clock wenv 0) 1 = (Inl e, j) \<longrightarrow>
                1 \<le> j \<and> r = failed_result rid ''ws'' (ws_now wenv) w
                                (ws_clock wenv j - ws_clock wenv 0) e)
          \<and> (\<not> success r \<longrightarrow>
                (\<exists>e j. ws_try wenv rid (ws_now wenv) w (ws_clock wenv 0) 1 = (Inl e, j))))
        \<and> ((\<forall>e. ws_connect wenv = Some e \<longrightarrow>
              ws_session websockets wenv ws_url rid w timeout
                = Inr (failed_result rid ''ws'' (ws_now wenv) w
                (ws_clock wenv 2 - ws_clock wenv 0) e))
           \<and> (ws_connect wenv = None \<longrightarrow>
             (\<forall>e. reset_send wenv = Some e \<longrightarrow>
                ws_session websockets wenv ws_url rid w timeout
                  = Inr (failed_result rid ''ws'' (ws_now wenv) w
                  (ws_clock wenv 4 - ws_clock wenv 0)
                  (case ws_leave wenv of None \<Rightarrow> e | Some e' \<Rightarrow> e')))
             \<and> (reset_send wenv = None \<longrightarrow>
               (\<forall>e. reset_recv wenv = Inl e \<longrightarrow>
                  ws_session websockets wenv ws_url rid w timeout
                    = Inr (failed_result rid ''ws'' (ws_now wenv) w
                    (ws_clock wenv 4 - ws_clock wenv 0)
                    (case ws_leave wenv of None \<Rightarrow> e | Some e' \<Rightarrow> e')))
               \<and> (\<forall>reply. reset_recv wenv = Inr reply \<longrightarrow>
                 (\<forall>e. msg_type reply = Inl e \<longrightarrow>
                    ws_session websockets wenv ws_url rid w timeout
                      = Inr (failed_result rid ''ws'' (ws_now wenv) w
                      (ws_clock wenv 5 - ws_clock wenv 0)
                      (case ws_leave wenv of None \<Rightarrow> e | Some e' \<Rightarrow> e')))
                 \<and> (msg_type reply = Inr (Some ''error'') \<longrightarrow>
                    ws_session websockets wenv ws_url rid w timeout
                      = Inr (failed_result rid ''ws'' (ws_now wenv) w
                      (ws_clock wenv 5 - ws_clock wenv 0)
                      (case ws_leave wenv of
                         None \<Rightarrow> RuntimeError (''Reset error: '' @ msg_repr reply)
                       | Some e' \<Rightarrow> e')))
                 \<and> (\<forall>ty. msg_type reply = Inr ty \<and> ty \<noteq> Some ''error'' \<longrightarrow>
                   (\<forall>e. step_send wenv = Some e \<longrightarrow>
                      ws_session websockets wenv ws_url rid w timeout
                        = Inr (failed_result rid ''ws'' (ws_now wenv) w
                        (ws_clock wenv 6 - ws_clock wenv 0)
                        (case ws_leave wenv of None \<Rightarrow> e | Some e' \<Rightarrow> e')))
                   \<and> (step_send wenv = None \<longrightarrow>
                     (\<forall>e. step_recv wenv = Inl e \<longrightarrow>
                        ws_session websockets wenv ws_url rid w timeout
                          = Inr (failed_result rid ''ws'' (ws_now wenv) w
                              (ws_clock wenv 6 - ws_clock wenv 0)
                              (case ws_leave wenv of None \<Rightarrow> e | Some e' \<Rightarrow> e')))
                     \<and> (\<forall>sreply. step_recv wenv = Inr sreply \<longrightarrow>
                       (\<forall>e. msg_type sreply = Inl e \<longrightarrow>
                          ws_session websockets wenv ws_url rid w timeout
                            = Inr (failed_result rid ''ws'' (ws_now wenv) w
                                (ws_clock wenv 7 - ws_clock wenv 0)
                                (case ws_leave wenv of None \<Rightarrow> e | Some e' \<Rightarrow> e')))
                       \<and> (msg_type sreply = Inr (Some ''error'') \<longrightarrow>
                          ws_session websockets wenv ws_url rid w timeout
                            = Inr (failed_result rid ''ws'' (ws_now wenv) w
                                (ws_clock wenv 7 - ws_clock wenv 0)
                                (case ws_leave wenv of
                                   None \<Rightarrow> RuntimeError (''Step error: '' @ msg_repr sreply)
                                 | Some e' \<Rightarrow> e')))
                       \<and> (\<forall>sty. msg_type sreply = Inr sty \<and> sty \<noteq> Some ''error'' \<longrightarrow>
                         (\<forall>e. close_send wenv = Some e \<longrightarrow>
                            ws_session websockets wenv ws_url rid w timeout
                              = Inr (failed_result rid ''ws'' (ws_now wenv) w
                                  (ws_clock wenv 7 - ws_clock wenv 0)
                                  (case ws_leave wenv of None \<Rightarrow> e | Some e' \<Rightarrow> e')))
                         \<and> (close_send wenv = None \<longrightarrow>
                           (\<forall>e. ws_leave wenv = Some e \<longrightarrow>
                              ws_session websockets wenv ws_url rid w timeout
                                = Inr (failed_result rid ''ws'' (ws_now wenv) w
                                    (ws_clock wenv 7 - ws_clock wenv 0) e))
                           \<and> (ws_leave wenv = None \<longrightarrow>
                             (\<forall>e. msg_observation sreply = Inl e \<longrightarrow>
                                ws_session websockets wenv ws_url rid w timeout
                                  = Inr (failed_result rid ''ws'' (ws_now wenv) w
                                      (ws_clock wenv 8 - ws_clock wenv 0) e))
                             \<and> (\<forall>obs. msg_observation sreply = Inr obs \<longrightarrow>
                                  (\<exists>r. ws_session websockets wenv ws_url rid w timeout = Inr r
                                     \<and> success r
                                     \<and> error_type r = None \<and> error_message r = None)))))))))))))
   \<and> (\<not> websockets \<longrightarrow>
        ws_session websockets wenv ws_url rid w timeout
          = Inl (ImportError ''websockets not installed: pip install websockets''))"
  apply (rule conjI)
  subgoal by (simp add: failed_result_fields exn_name_nonempty)
  apply (rule conjI)
  subgoal by (rule http_session_failure)
  apply (rule conjI)
  subgoal
    by (auto simp: http_session_def http_try_def session_failed_def timed_defs
        new_SessionResult_def eval_nat_numeral)
  apply (rule conjI)
  subgoal
    apply (rule impI)
    apply (rule conjI)
    subgoal using ws_session_failure [of wenv ws_url rid w timeout] by simp
    subgoal
      by (auto simp: ws_session_def ws_try_def raise_if_error_def session_failed_def timed_defs
          new_SessionResult_def eval_nat_numeral split: option.splits)
    done
  subgoal by (simp add: ws_session_def)
  done

theorem C4_session_failure_record_witness:
  "map_sum id raise_for_status (reset_post http_500) = Inr (Some status_500)
   \<and> http_session http_500 ''http://localhost:8000'' 0 1
       = Inr (failed_result 0 ''http'' ''2025-01-01T00:00:00Z'' 1 2 status_500)
   \<and> error_type (failed_result 0 ''http'' ''2025-01-01T00:00:00Z'' 1 2 status_500)
       = Some ''HTTPStatusError''
   \<and> step_post http_timeout = Inl read_timeout
   \<and> http_session http_timeout ''http://localhost:8000'' 0 1
       = Inr (failed_result 0 ''http'' ''2025-01-01T00:00:00Z'' 1 4 read_timeout)
   \<and> error_message (failed_result 0 ''http'' ''2025-01-01T00:00:00Z'' 1 4 read_timeout) = Some []
   \<and> map_sum id msg_type (step_recv ws_error_reply) = Inr (Inr (Some ''error''))
   \<and> ws_session True ws_error_reply ''ws://localhost:8000/ws'' 0 1 60
       = Inr (failed_result 0 ''ws'' ''2025-01-01T00:00:00Z'' 1 7 (RuntimeError ''Step error: {...}''))
   \<and> ws_connect ws_timeout = Some connect_timeout
   \<and> ws_session True ws_timeout ''ws://localhost:8000/ws'' 0 1 60
       = Inr (failed_result 0 ''ws'' ''2025-01-01T00:00:00Z'' 1 2 connect_timeout)
   \<and> pid (failed_result 0 ''ws'' ''2025-01-01T00:00:00Z'' 1 2 connect_timeout) = 0
   \<and> ws_session False ws_timeout ''ws://localhost:8000/ws'' 0 1 60
       = Inl (ImportError ''websockets not installed: pip install websockets'')"
  using C4_session_failure_record [of 0 "''http''" "''2025-01-01T00:00:00Z''" 1 2 status_500
      http_500 "''http://localhost:8000''" True ws_error_reply "''ws://localhost:8000/ws''" 60]
    C4_session_failure_record [of 0 "''http''" "''2025-01-01T00:00:00Z''" 1 4 read_timeout
      http_timeout "''http://localhost:8000''" True ws_timeout "''ws://localhost:8000/ws''" 60]
    C4_session_failure_record [of 0 "''ws''" "''2025-01-01T00:00:00Z''" 1 2 connect_timeout
      http_timeout "''http://localhost:8000''" False ws_timeout "''ws://localhost:8000/ws''" 60]
  by (simp add: http_500_def http_timeout_def ws_error_reply_def ws_timeout_def ws_ok_def
      example_response_def example_message_def error_message_reply_def example_exn_names)

text \<open>
  C9: for \<open>N \<ge> 1\<close>, \<open>run_http_test\<close> returns exactly \<open>N\<close> records, and so does
  \<open>run_ws_test\<close> where the \<^verbatim>\<open>websockets\<close> package is installed; no record is dropped
  when a session fails (a failed session returns a record, see C4); the record at
  position \<open>i\<close> is the record that session \<open>i\<close> returned with \<open>batch_size\<close> set to \<open>N\<close>
  and \<open>hardware\<close> set to the configured tier, and no other field changed.
\<close>

theorem C9_batch_runner:
  "1 \<le> n \<longrightarrow>
     (\<exists>rs. run_http_test henvs u n w timeout hw = Inr rs \<and> len rs = n
        \<and> (\<forall>i. 0 \<le> i \<and> i < n \<longrightarrow>
              (\<exists>r. http_session (henvs i) u i w = Inr r
                 \<and> rs ! nat i = r\<lparr>batch_size := n, hardware := hw\<rparr>
                 \<and> batch_size (rs ! nat i) = n \<and> hardware (rs ! nat i) = hw)))
     \<and> (websockets \<longrightarrow>
          (\<exists>rs. run_ws_test websockets wenvs u n w timeout hw = Inr rs \<and> len rs = n
             \<and> (\<forall>i. 0 \<le> i \<and> i < n \<longrightarrow>
                   (\<exists>r. ws_session websockets (wenvs i) (convert_to_ws_url u) i w timeout = Inr r
                      \<and> rs ! nat i = r\<lparr>batch_size := n, hardware := hw\<rparr>
                      \<and> batch_size (rs ! nat i) = n \<and> hardware (rs ! nat i) = hw))))"
proof (intro impI conjI)
  assume n: "1 \<le> n"
  then have n0: "0 \<le> n" by simp
  have idx: "nat i < length (py_range n)" if "0 \<le> i \<and> i < n" for i
    using that length_py_range [OF n0] by linarith
  define rs where "rs = map (\<lambda>i. stamp n hw (projr (http_session (henvs i) u i w))) (py_range n)"
  have run: "run_http_test henvs u n w timeout hw = Inr rs"
    unfolding rs_def by (rule run_http_test_eq)
  have count: "len rs = n"
    using length_py_range [OF n0] by (simp add: len_def rs_def)
  have each: "\<forall>i. 0 \<le> i \<and> i < n \<longrightarrow>
      (\<exists>r. http_session (henvs i) u i w = Inr r
         \<and> rs ! nat i = r\<lparr>batch_size := n, hardware := hw\<rparr>
         \<and> batch_size (rs ! nat i) = n \<and> hardware (rs ! nat i) = hw)"
  proof (intro allI impI)
    fix i assume i: "0 \<le> i \<and> i < n"
    obtain r where r: "http_session (henvs i) u i w = Inr r"
      using http_session_returns by blast
    have at: "rs ! nat i = r\<lparr>batch_size := n, hardware := hw\<rparr>"
      using idx [OF i] i r by (simp add: rs_def nth_py_range stamp_def)
    show "\<exists>r. http_session (henvs i) u i w = Inr r
        \<and> rs ! nat i = r\<lparr>batch_size := n, hardware := hw\<rparr>
        \<and> batch_size (rs ! nat i) = n \<and> hardware (rs ! nat i) = hw"
      unfolding at using r by simp
  qed
  show "\<exists>rs. run_http_test henvs u n w timeout hw = Inr rs \<and> len rs = n
        \<and> (\<forall>i. 0 \<le> i \<and> i < n \<longrightarrow>
              (\<exists>r. http_session (henvs i) u i w = Inr r
                 \<and> rs ! nat i = r\<lparr>batch_size := n, hardware := hw\<rparr>
                 \<and> batch_size (rs ! nat i) = n \<and> hardware (rs ! nat i) = hw))"
    using run count each by (intro exI [of _ rs] conjI)
  assume ws: websockets
  define ws_url where "ws_url = convert_to_ws_url u"
  define rs' where
    "rs' = map (\<lambda>i. stamp n hw (projr (ws_session websockets (wenvs i) ws_url i w timeout)))
             (py_range n)"
  have run': "run_ws_test websockets wenvs u n w timeout hw = Inr rs'"
    unfolding rs'_def ws_url_def using ws by (simp add: run_ws_test_eq)
  have count': "len rs' = n"
    using length_py_range [OF n0] by (simp add: len_def rs'_def)
  have each': "\<forall>i. 0 \<le> i \<and> i < n \<longrightarrow>
      (\<exists>r. ws_session websockets (wenvs i) ws_url i w timeout = Inr r
         \<and> rs' ! nat i = r\<lparr>batch_size := n, hardware := hw\<rparr>
         \<and> batch_size (rs' ! nat i) = n \<and> hardware (rs' ! nat i) = hw)"
  proof (intro allI impI)
    fix i assume i: "0 \<le> i \<and> i < n"
    obtain r where r: "ws_session websockets (wenvs i) ws_url i w timeout = Inr r"
      using ws ws_session_returns [of "wenvs i" ws_url i w timeout] by auto
    have at: "rs' ! nat i = r\<lparr>batch_size := n, hardware := hw\<rparr>"
      using idx [OF i] i r by (simp add: rs'_def nth_py_range stamp_def)
    show "\<exists>r. ws_session websockets (wenvs i) ws_url i w timeout = Inr r
        \<and> rs' ! nat i = r\<lparr>batch_size := n, hardware := hw\<rparr>
        \<and> batch_size (rs' ! nat i) = n \<and> hardware (rs' ! nat i) = hw"
      unfolding at using r by simp
  qed
  show "\<exists>rs. run_ws_test websockets wenvs u n w timeout hw = Inr rs \<and> len rs = n
        \<and> (\<forall>i. 0 \<le> i \<and> i < n \<longrightarrow>
              (\<exists>r. ws_session websockets (wenvs i) (convert_to_ws_url u) i w timeout = Inr r
                 \<and> rs ! nat i = r\<lparr>batch_size := n, hardware := hw\<rparr>
                 \<and> batch_size (rs ! nat i) = n \<and> hardware (rs ! nat i) = hw))"
    using run' count' each' unfolding ws_url_def by (intro exI [of _ rs'] conjI)
qed

theorem C9_batch_runner_witness:
  "(1::int) \<le> 2
   \<and> run_http_test (http_envs example_batch) ''http://localhost:8000'' 2 1 120 ''t4-small''
       = Inr example_http_results
   \<and> len example_http_results = 2
   \<and> (\<exists>r. http_session (http_envs example_batch 1) ''http://localhost:8000'' 1 1 = Inr r
        \<and> \<not> success r \<and> batch_size r = 0 \<and> hardware r = ''cpu-basic''
        \<and> example_http_results ! 1 = r\<lparr>batch_size := 2, hardware := ''t4-small''\<rparr>)
   \<and> run_ws_test True (ws_envs example_batch) ''http://localhost:8000'' 2 1 120 ''t4-small''
       = Inr example_ws_results
   \<and> len example_ws_results = 2
   \<and> (\<exists>r. ws_session True (ws_envs example_batch 0) (convert_to_ws_url ''http://localhost:8000'')
             0 1 120 = Inr r
        \<and> success r \<and> batch_size r = 0
        \<and> example_ws_results ! 0 = r\<lparr>batch_size := 2, hardware := ''t4-small''\<rparr>)"
  using C9_batch_runner [of 2 "http_envs example_batch" "''http://localhost:8000''" 1 120
      "''t4-small''" True "ws_envs example_batch"]
    example_http_batch example_ws_batch
  by (simp add: example_batch_def http_session_timeout ws_session_ok new_SessionResult_def
      example_http_results_def example_ws_results_def len_def)

section \<open>Claim about the grid sweep\<close>

text \<open>
  C6: for every list of concurrency levels, every list of wait values and every
  repetition count \<open>R \<ge> 0\<close> (in mode \<^verbatim>\<open>ws\<close>: where the \<^verbatim>\<open>websockets\<close> package is
  installed), \<open>run_grid_sweep\<close> returns \<open>len(levels) * len(waits) * R\<close> summaries, in the
  order of the nested loops (concurrency outermost, then wait, then repetition
  \<open>1, ..., R\<close>), each summary carrying the \<open>num_requests\<close>, \<open>wait_seconds\<close> and
  \<open>repetition\<close> of its cell; levels \<open>[1,2]\<close>, waits \<open>[0.1,0.5]\<close> and \<open>R = 2\<close> give the
  eight summaries of the cells (1,0.1,1), (1,0.1,2), (1,0.5,1), (1,0.5,2), (2,0.1,1),
  (2,0.1,2), (2,0.5,1), (2,0.5,2), in this order.
\<close>

theorem C6_grid_sweep_order:
  "(m = ''ws'' \<longrightarrow> websockets) \<and> 0 \<le> R \<longrightarrow>
     (\<exists>out. run_grid_sweep websockets envs u levels waits m timeout R hw = Inr out
        \<and> int (length out) = int (length levels) * int (length waits) * R
        \<and> map (\<lambda>s. (num_requests s, wait_seconds s, repetition s)) out
            = concat (map (\<lambda>n. concat (map (\<lambda>w. map (\<lambda>rep. (n, w, rep)) [1..R]) waits)) levels))
     \<and> (\<exists>out. run_grid_sweep websockets envs u [1, 2] [0.1, 0.5] m timeout 2 hw = Inr out
          \<and> length out = 8
          \<and> map (\<lambda>s. (num_requests s, wait_seconds s, repetition s)) out
              = [(1, 0.1, 1), (1, 0.1, 2), (1, 0.5, 1), (1, 0.5, 2),
                 (2, 0.1, 1), (2, 0.1, 2), (2, 0.5, 1), (2, 0.5, 2)])"
proof (intro impI conjI)
  assume a: "(m = ''ws'' \<longrightarrow> websockets) \<and> 0 \<le> R"
  then have ok: "m = ''ws'' \<longrightarrow> websockets" and R: "0 \<le> R" by simp_all
  obtain out where out:
    "run_grid_sweep websockets envs u levels waits m timeout R hw = Inr out"
    "map (\<lambda>s. (num_requests s, wait_seconds s, repetition s)) out
       = concat (map (\<lambda>n. concat (map (\<lambda>w. map (\<lambda>rep. (n, w, rep)) [1..R]) waits)) levels)"
    using run_grid_sweep_cells [OF ok] by blast
  have "length out = length (map (\<lambda>s. (num_requests s, wait_seconds s, repetition s)) out)"
    by simp
  also have "\<dots> = length levels * (length waits * length [1..R])"
    unfolding out(2) by (rule length_cells)
  finally have "int (length out) = int (length levels) * int (length waits) * R"
    using R by simp
  with out show "\<exists>out. run_grid_sweep websockets envs u levels waits m timeout R hw = Inr out
        \<and> int (length out) = int (length levels) * int (length waits) * R
        \<and> map (\<lambda>s. (num_requests s, wait_seconds s, repetition s)) out
            = concat (map (\<lambda>n. concat (map (\<lambda>w. map (\<lambda>rep. (n, w, rep)) [1..R]) waits)) levels)"
    by (intro exI [of _ out] conjI)
  obtain out8 where out8:
    "run_grid_sweep websockets envs u [1, 2] [0.1, 0.5] m timeout 2 hw = Inr out8"
    "map (\<lambda>s. (num_requests s, wait_seconds s, repetition s)) out8
       = concat (map (\<lambda>n. concat (map (\<lambda>w. map (\<lambda>rep. (n, w, rep)) [1..2]) [0.1, 0.5])) [1, 2])"
    using run_grid_sweep_cells [OF ok] by blast
  have reps: "[1..2::int] = [1, 2]"
    by (simp add: upto.simps)
  have cells: "map (\<lambda>s. (num_requests s, wait_seconds s, repetition s)) out8
      = [(1, 0.1, 1), (1, 0.1, 2), (1, 0.5, 1), (1, 0.5, 2),
         (2, 0.1, 1), (2, 0.1, 2), (2, 0.5, 1), (2, 0.5, 2)]"
    unfolding out8(2) reps by simp
  then have "length (map (\<lambda>s. (num_requests s, wait_seconds s, repetition s)) out8) = 8"
    by simp
  then have "length out8 = 8" by simp
  with out8(1) cells
  show "\<exists>out. run_grid_sweep websockets envs u [1, 2] [0.1, 0.5] m timeout 2 hw = Inr out
          \<and> length out = 8
          \<and> map (\<lambda>s. (num_requests s, wait_seconds s, repetition s)) out
              = [(1, 0.1, 1), (1, 0.1, 2), (1, 0.5, 1), (1, 0.5, 2),
                 (2, 0.1, 1), (2, 0.1, 2), (2, 0.5, 1), (2, 0.5, 2)]"
    by (intro exI [of _ out8] conjI)
qed

theorem C6_grid_sweep_order_witness:
  "(0::int) \<le> 3
   \<and> (\<exists>out. run_grid_sweep True (\<lambda>current. example_batch) ''http://localhost:8000'' [4, 2]
               [1 / 2] ''ws'' 120 3 ''t4-small'' = Inr out
          \<and> length out = 6
          \<and> map (\<lambda>s. (num_requests s, wait_seconds s, repetition s)) out
              = [(4, 1 / 2, 1), (4, 1 / 2, 2), (4, 1 / 2, 3),
                 (2, 1 / 2, 1), (2, 1 / 2, 2), (2, 1 / 2, 3)])
   \<and> (\<exists>out. run_grid_sweep False (\<lambda>current. example_batch) ''http://localhost:8000'' [1, 2]
               [0.1, 0.5] ''http'' 120 2 ''t4-small'' = Inr out
          \<and> length out = 8
          \<and> map (\<lambda>s. (num_requests s, wait_seconds s, repetition s)) out
              = [(1, 0.1, 1), (1, 0.1, 2), (1, 0.5, 1), (1, 0.5, 2),
                 (2, 0.1, 1), (2, 0.1, 2), (2, 0.5, 1), (2, 0.5, 2)])"
proof -
  have reps: "[1..3::int] = [1, 2, 3]"
    by (simp add: upto.simps)
  from C6_grid_sweep_order [of "''ws''" True 3 "\<lambda>current. example_batch"
      "''http://localhost:8000''" "[4, 2]" "[1 / 2]" 120 "''t4-small''"]
    C6_grid_sweep_order [of "''http''" False 2 "\<lambda>current. example_batch"
      "''http://localhost:8000''" "[1, 2]" "[0.1, 0.5]" 120 "''t4-small''"]
  show ?thesis
    by (simp add: reps)
qed

end
